theory Spec2Isabelle
  imports Main "HOL-Library.Word"
begin

section \<open>Shader optimizer: data model\<close>

text \<open>
  The model follows \<^verbatim>\<open>icd/api/app_shader_optimizer.cpp\<close>. The structures it works on are
  declared in headers that are not part of the sources at hand; every record below holds
  exactly the members that the functions of the source file read or write, under the
  member's name (with a short prefix where two structures share a member name).
\<close>

unbundle bit_operations_syntax

type_synonym u32 = "32 word"
type_synonym u64 = "64 word"

text \<open>
  The shader stages, in the order of the enumeration (the order in which
  \<^verbatim>\<open>PrintProfileEntryMatch\<close> lists them); \<^verbatim>\<open>ShaderStageCount\<close> is 6. An array
  \<^verbatim>\<open>T x[ShaderStageCount]\<close> is a function from stages.
\<close>

datatype ShaderStage =
    ShaderStageVertex
  | ShaderStageTessControl
  | ShaderStageTessEvaluation
  | ShaderStageGeometry
  | ShaderStageFragment
  | ShaderStageCompute

definition ShaderStageCount :: nat where
  "ShaderStageCount = 6"

text \<open>The stages visited by \<^verbatim>\<open>for (stage = 0; stage < ShaderStageCount; ++stage)\<close>.\<close>

definition stageRange :: "ShaderStage list" where
  "stageRange = [ShaderStageVertex, ShaderStageTessControl, ShaderStageTessEvaluation,
                 ShaderStageGeometry, ShaderStageFragment, ShaderStageCompute]"

text \<open>
  An index into a per-stage array, as \<^verbatim>\<open>BuildTuningProfile\<close> takes it from the settings: the
  stage at that position when the index is below \<^verbatim>\<open>ShaderStageCount\<close>, no stage otherwise.
\<close>

definition stageOfIndex :: "u32 \<Rightarrow> ShaderStage option" where
  "stageOfIndex i =
     (if unat i < ShaderStageCount then Some (stageRange ! unat i) else None)"

subsection \<open>Pipeline key\<close>

record ShaderHash =
  lower :: u64
  upper :: u64

record ShaderOptimizerKey =
  codeHash :: ShaderHash
  codeSize :: u64

record PipelineOptimizerKey =
  shaders :: "ShaderStage \<Rightarrow> ShaderOptimizerKey"

subsection \<open>Patterns\<close>

text \<open>The bit-field half of the union \<^verbatim>\<open>ShaderProfilePattern::match\<close>.\<close>

record ShaderMatch =
  stageActive :: bool
  stageInactive :: bool
  match_codeHash :: bool
  codeSizeLessThan :: bool

text \<open>
  The other half of the union, \<^verbatim>\<open>u32All\<close>, reads the same bits as one 32-bit value. The
  source only compares it with 0, which does not depend on where each bit lies; the bits are
  laid out here in the order above.
\<close>

definition u32All :: "ShaderMatch \<Rightarrow> u32" where
  "u32All m = of_bool (stageActive m) + 2 * of_bool (stageInactive m)
              + 4 * of_bool (match_codeHash m) + 8 * of_bool (codeSizeLessThan m)"

record ShaderProfilePattern =
  shader_match :: ShaderMatch
  pattern_codeHash :: ShaderHash
  codeSizeLessThanValue :: u64

record PipelineMatch =
  always :: bool

record PipelineProfilePattern =
  pattern_match :: PipelineMatch
  pattern_shaders :: "ShaderStage \<Rightarrow> ShaderProfilePattern"

section \<open>The pattern matcher\<close>

text \<open>
  The loop of \<^verbatim>\<open>ProfilePatternMatchesPipeline\<close> over the stages still to visit: each
  \<^verbatim>\<open>return false\<close> of the body is a \<open>False\<close> branch, falling out of the loop is \<open>True\<close>.
\<close>

fun matchStages :: "ShaderStage list \<Rightarrow> PipelineProfilePattern \<Rightarrow> PipelineOptimizerKey \<Rightarrow> bool" where
  "matchStages [] pattern pipelineKey = True"
| "matchStages (stage # rest) pattern pipelineKey =
     (let shaderPattern = pattern_shaders pattern stage in
      if u32All (shader_match shaderPattern) \<noteq> 0 then
        (let shaderKey = shaders pipelineKey stage in
         if stageActive (shader_match shaderPattern) \<and> codeSize shaderKey = 0 then False
         else if stageInactive (shader_match shaderPattern) \<and> codeSize shaderKey \<noteq> 0 then False
         else if match_codeHash (shader_match shaderPattern) \<and>
                 (lower (pattern_codeHash shaderPattern) \<noteq> lower (codeHash shaderKey) \<or>
                  upper (pattern_codeHash shaderPattern) \<noteq> upper (codeHash shaderKey)) then False
         else if codeSizeLessThan (shader_match shaderPattern) \<and>
                 codeSizeLessThanValue shaderPattern \<ge> codeSize shaderKey then False
         else matchStages rest pattern pipelineKey)
      else matchStages rest pattern pipelineKey)"

definition ProfilePatternMatchesPipeline :: "PipelineProfilePattern \<Rightarrow> PipelineOptimizerKey \<Rightarrow> bool" where
  "ProfilePatternMatchesPipeline pattern pipelineKey =
     (if always (pattern_match pattern) then True
      else matchStages stageRange pattern pipelineKey)"

section \<open>Actions\<close>

text \<open>The bit field \<^verbatim>\<open>shaderCreate.apply\<close> of a per-stage action.\<close>

record ShaderCreateApply =
  apply_vgprLimit :: bool
  apply_sgprLimit :: bool
  apply_ldsSpillLimitDwords :: bool
  apply_userDataSpillThreshold :: bool
  apply_maxThreadGroupsPerComputeUnit :: bool
  apply_debugMode :: bool
  apply_trapPresent :: bool
  apply_allowReZ :: bool
  apply_disableLoopUnrolls :: bool
  apply_enableSelectiveInline :: bool
  apply_fp32DenormalMode :: bool
  apply_waveSize :: bool
  apply_wgpMode :: bool
  apply_waveBreakSize :: bool
  apply_nggDisable :: bool
  apply_nggFasterLaunchRate :: bool
  apply_nggVertexReuse :: bool
  apply_nggEnableFrustumCulling :: bool
  apply_nggEnableBoxFilterCulling :: bool
  apply_nggEnableSphereCulling :: bool
  apply_nggEnableBackfaceCulling :: bool
  apply_nggEnableSmallPrimFilter :: bool
  apply_enableSubvector :: bool

text \<open>The payload \<^verbatim>\<open>shaderCreate.tuningOptions\<close>.\<close>

record ShaderTuningOptions =
  tune_vgprLimit :: u32
  tune_sgprLimit :: u32
  tune_ldsSpillLimitDwords :: u32
  tune_userDataSpillThreshold :: u32
  tune_maxThreadGroupsPerComputeUnit :: u32
  tune_useSiScheduler :: bool
  tune_reconfigWorkgroupLayout :: bool
  tune_enableLoadScalarizer :: bool
  tune_forceLoopUnrollCount :: u32
  tune_disableLicm :: bool
  tune_unrollThreshold :: u32
  tune_fp32DenormalMode :: u32
  tune_waveSize :: u32
  tune_waveBreakSize :: u32

record ShaderCreate =
  sc_apply :: ShaderCreateApply
  tuningOptions :: ShaderTuningOptions

record DynamicShaderInfoApply =
  apply_maxWavesPerCu :: bool
  apply_cuEnableMask :: bool
  apply_maxThreadGroupsPerCu :: bool

record DynamicShaderInfo =
  dsi_apply :: DynamicShaderInfoApply
  dsi_maxWavesPerCu :: u32
  dsi_cuEnableMask :: u32
  dsi_maxThreadGroupsPerCu :: u32

record ShaderProfileAction =
  dynamicShaderInfo :: DynamicShaderInfo
  shaderCreate :: ShaderCreate

datatype BinningOverride = BinningOverrideDefault | BinningOverrideDisable | BinningOverrideEnable

record CreateInfoApply =
  apply_lateAllocVsLimit :: bool
  apply_binningOverride :: bool

record CreateInfo =
  ci_apply :: CreateInfoApply
  ci_lateAllocVsLimit :: u32
  ci_binningOverride :: BinningOverride

record PipelineProfileAction =
  action_shaders :: "ShaderStage \<Rightarrow> ShaderProfileAction"
  createInfo :: CreateInfo

record PipelineProfileEntry =
  pattern :: PipelineProfilePattern
  action :: PipelineProfileAction

text \<open>
  A profile: \<^verbatim>\<open>pEntries\<close> is \<open>None\<close> for the null pointer, otherwise the array it points
  to.
\<close>

record PipelineProfile =
  entryCount :: u32
  entryCapacity :: u32
  pEntries :: "PipelineProfileEntry list option"

section \<open>Targets of the shader-stage path\<close>

record PipelineShaderOptions =
  vgprLimit :: u32
  sgprLimit :: u32
  maxThreadGroupsPerComputeUnit :: u32
  debugMode :: bool
  trapPresent :: bool
  allowReZ :: bool
  disableLoopUnroll :: bool
  useSiScheduler :: bool
  enableLoadScalarizer :: bool
  forceLoopUnrollCount :: u32
  disableLicm :: bool
  unrollThreshold :: u32
  fp32DenormalMode :: u32
  waveSize :: u32
  wgpMode :: bool
  waveBreakSize :: u32

record PipelineOptions =
  reconfigWorkgroupLayout :: bool

record NggState =
  enableNgg :: bool
  enableFastLaunch :: bool
  enableVertexReuse :: bool
  enableFrustumCulling :: bool
  enableBoxFilterCulling :: bool
  enableSphereCulling :: bool
  enableBackfaceCulling :: bool
  enableSmallPrimFilter :: bool

text \<open>
  \<^verbatim>\<open>PipelineShaderOptionsPtr\<close> holds three pointers to objects of the caller. Each is
  modelled with the object it points to, \<open>None\<close> for the null pointer; the three objects have
  different types, so they do not overlap.
\<close>

record PipelineShaderOptionsPtr =
  pPipelineOptions :: "PipelineOptions option"
  pOptions :: "PipelineShaderOptions option"
  pNggState :: "NggState option"

text \<open>
  What C++ leaves undefined is a value of the model: a write through a null pointer, a read
  past the end of an array, and the failure of \<^verbatim>\<open>VK_ASSERT\<close>.
\<close>

datatype fault = NullPointer | OutOfBounds | AssertFailed

text \<open>The three preprocessor symbols that select code in the functions modelled.\<close>

record BuildMacros =
  ICD_RUNTIME_APP_PROFILE :: bool
  LLPC_CLIENT_INTERFACE_MAJOR_VERSION :: nat
  PAL_ENABLE_PRINTS_ASSERTS :: bool

section \<open>Applying a profile to the shader compiler options\<close>

definition onOptions ::
  "(PipelineShaderOptions \<Rightarrow> PipelineShaderOptions) \<Rightarrow> PipelineShaderOptionsPtr
     \<Rightarrow> fault + PipelineShaderOptionsPtr" where
  "onOptions f options =
     (case pOptions options of
        None \<Rightarrow> Inl NullPointer
      | Some obj \<Rightarrow> Inr (options\<lparr>pOptions := Some (f obj)\<rparr>))"

definition onPipelineOptions ::
  "(PipelineOptions \<Rightarrow> PipelineOptions) \<Rightarrow> PipelineShaderOptionsPtr
     \<Rightarrow> fault + PipelineShaderOptionsPtr" where
  "onPipelineOptions f options =
     (case pPipelineOptions options of
        None \<Rightarrow> Inl NullPointer
      | Some obj \<Rightarrow> Inr (options\<lparr>pPipelineOptions := Some (f obj)\<rparr>))"

definition onNggState ::
  "(NggState \<Rightarrow> NggState) \<Rightarrow> PipelineShaderOptionsPtr \<Rightarrow> fault + PipelineShaderOptionsPtr" where
  "onNggState f options =
     (case pNggState options of
        None \<Rightarrow> Inl NullPointer
      | Some obj \<Rightarrow> Inr (options\<lparr>pNggState := Some (f obj)\<rparr>))"

text \<open>
  A run of statements \<^verbatim>\<open>if (c) { write; }\<close>: the guarded writes are carried out in order,
  and the first fault ends the run.
\<close>

fun runWrites :: "(bool \<times> ('s \<Rightarrow> fault + 's)) list \<Rightarrow> 's \<Rightarrow> fault + 's" where
  "runWrites [] s = Inr s"
| "runWrites ((c, w) # ws) s =
     (if c then (case w s of Inl e \<Rightarrow> Inl e | Inr s' \<Rightarrow> runWrites ws s')
      else runWrites ws s)"

text \<open>
  The guarded writes inside \<^verbatim>\<open>if (options.pOptions != nullptr)\<close>, in the order of the
  source.
\<close>

definition shaderCreateWrites ::
  "BuildMacros \<Rightarrow> ShaderCreate
     \<Rightarrow> (bool \<times> (PipelineShaderOptionsPtr \<Rightarrow> fault + PipelineShaderOptionsPtr)) list" where
  "shaderCreateWrites cfg create =
     [(apply_vgprLimit (sc_apply create),
         onOptions (\<lambda>obj. obj\<lparr>vgprLimit := tune_vgprLimit (tuningOptions create)\<rparr>)),
      (apply_sgprLimit (sc_apply create),
         onOptions (\<lambda>obj. obj\<lparr>sgprLimit := tune_sgprLimit (tuningOptions create)\<rparr>)),
      (apply_maxThreadGroupsPerComputeUnit (sc_apply create),
         onOptions (\<lambda>obj. obj\<lparr>maxThreadGroupsPerComputeUnit :=
                                 tune_maxThreadGroupsPerComputeUnit (tuningOptions create)\<rparr>)),
      (apply_debugMode (sc_apply create), onOptions (\<lambda>obj. obj\<lparr>debugMode := True\<rparr>)),
      (apply_trapPresent (sc_apply create), onOptions (\<lambda>obj. obj\<lparr>trapPresent := True\<rparr>)),
      (apply_allowReZ (sc_apply create), onOptions (\<lambda>obj. obj\<lparr>allowReZ := True\<rparr>)),
      (apply_disableLoopUnrolls (sc_apply create),
         onOptions (\<lambda>obj. obj\<lparr>disableLoopUnroll := True\<rparr>)),
      (tune_useSiScheduler (tuningOptions create),
         onOptions (\<lambda>obj. obj\<lparr>useSiScheduler := True\<rparr>)),
      (tune_reconfigWorkgroupLayout (tuningOptions create),
         onPipelineOptions (\<lambda>obj. obj\<lparr>reconfigWorkgroupLayout := True\<rparr>)),
      (tune_enableLoadScalarizer (tuningOptions create),
         onOptions (\<lambda>obj. obj\<lparr>enableLoadScalarizer := True\<rparr>)),
      (tune_forceLoopUnrollCount (tuningOptions create) \<noteq> 0,
         onOptions (\<lambda>obj. obj\<lparr>forceLoopUnrollCount :=
                                 tune_forceLoopUnrollCount (tuningOptions create)\<rparr>)),
      (tune_disableLicm (tuningOptions create),
         onOptions (\<lambda>obj. obj\<lparr>disableLicm := True\<rparr>)),
      (tune_unrollThreshold (tuningOptions create) \<noteq> 0,
         onOptions (\<lambda>obj. obj\<lparr>unrollThreshold :=
                                 tune_unrollThreshold (tuningOptions create)\<rparr>)),
      (apply_fp32DenormalMode (sc_apply create),
         onOptions (\<lambda>obj. obj\<lparr>fp32DenormalMode :=
                                 tune_fp32DenormalMode (tuningOptions create)\<rparr>)),
      (apply_waveSize (sc_apply create),
         onOptions (\<lambda>obj. obj\<lparr>waveSize := tune_waveSize (tuningOptions create)\<rparr>)),
      (apply_wgpMode (sc_apply create), onOptions (\<lambda>obj. obj\<lparr>wgpMode := True\<rparr>)),
      (apply_waveBreakSize (sc_apply create),
         onOptions (\<lambda>obj. obj\<lparr>waveBreakSize :=
                                 tune_waveBreakSize (tuningOptions create)\<rparr>)),
      (apply_nggDisable (sc_apply create),
         onNggState (\<lambda>obj. obj\<lparr>enableNgg := False\<rparr>)),
      (LLPC_CLIENT_INTERFACE_MAJOR_VERSION cfg < 45 \<and>
       apply_nggFasterLaunchRate (sc_apply create),
         onNggState (\<lambda>obj. obj\<lparr>enableFastLaunch := True\<rparr>)),
      (apply_nggVertexReuse (sc_apply create),
         onNggState (\<lambda>obj. obj\<lparr>enableVertexReuse := True\<rparr>)),
      (apply_nggEnableFrustumCulling (sc_apply create),
         onNggState (\<lambda>obj. obj\<lparr>enableFrustumCulling := True\<rparr>)),
      (apply_nggEnableBoxFilterCulling (sc_apply create),
         onNggState (\<lambda>obj. obj\<lparr>enableBoxFilterCulling := True\<rparr>)),
      (apply_nggEnableSphereCulling (sc_apply create),
         onNggState (\<lambda>obj. obj\<lparr>enableSphereCulling := True\<rparr>)),
      (apply_nggEnableBackfaceCulling (sc_apply create),
         onNggState (\<lambda>obj. obj\<lparr>enableBackfaceCulling := True\<rparr>)),
      (apply_nggEnableSmallPrimFilter (sc_apply create),
         onNggState (\<lambda>obj. obj\<lparr>enableSmallPrimFilter := True\<rparr>))]"

text \<open>The body of the loop for an entry whose pattern has matched.\<close>

definition applyShaderCreate ::
  "BuildMacros \<Rightarrow> ShaderCreate \<Rightarrow> PipelineShaderOptionsPtr \<Rightarrow> fault + PipelineShaderOptionsPtr" where
  "applyShaderCreate cfg create options =
     (if pOptions options \<noteq> None then runWrites (shaderCreateWrites cfg create) options
      else Inr options)"

text \<open>\<^verbatim>\<open>profile.pEntries[entry]\<close>, read when the pattern of the entry is tested.\<close>

definition entryAt :: "PipelineProfile \<Rightarrow> nat \<Rightarrow> fault + PipelineProfileEntry" where
  "entryAt profile entry =
     (case pEntries profile of
        None \<Rightarrow> Inl NullPointer
      | Some entries \<Rightarrow> if entry < length entries then Inr (entries ! entry) else Inl OutOfBounds)"

text \<open>The loop \<^verbatim>\<open>for (entry = 0; entry < profile.entryCount; ++entry)\<close> over the indices left.\<close>

fun shaderCreateLoop ::
  "BuildMacros \<Rightarrow> PipelineProfile \<Rightarrow> PipelineOptimizerKey \<Rightarrow> ShaderStage \<Rightarrow> nat list
     \<Rightarrow> PipelineShaderOptionsPtr \<Rightarrow> fault + PipelineShaderOptionsPtr" where
  "shaderCreateLoop cfg profile pipelineKey shaderStage [] options = Inr options"
| "shaderCreateLoop cfg profile pipelineKey shaderStage (entry # rest) options =
     (case entryAt profile entry of
        Inl e \<Rightarrow> Inl e
      | Inr profileEntry \<Rightarrow>
          if ProfilePatternMatchesPipeline (pattern profileEntry) pipelineKey then
            (case applyShaderCreate cfg
                    (shaderCreate (action_shaders (action profileEntry) shaderStage)) options of
               Inl e \<Rightarrow> Inl e
             | Inr options' \<Rightarrow> shaderCreateLoop cfg profile pipelineKey shaderStage rest options')
          else shaderCreateLoop cfg profile pipelineKey shaderStage rest options)"

definition ApplyProfileToShaderCreateInfo ::
  "BuildMacros \<Rightarrow> PipelineProfile \<Rightarrow> PipelineOptimizerKey \<Rightarrow> ShaderStage
     \<Rightarrow> PipelineShaderOptionsPtr \<Rightarrow> fault + PipelineShaderOptionsPtr" where
  "ApplyProfileToShaderCreateInfo cfg profile pipelineKey shaderStage options =
     shaderCreateLoop cfg profile pipelineKey shaderStage
       [0 ..< unat (entryCount profile)] options"

datatype ShaderWaveSize = WaveSizeAuto | WaveSize64 | WaveSize32

datatype WgpMode = WgpModeAuto | WgpModeCu | WgpModeWgp

datatype PipelineBinningMode =
  PipelineBinningModeDefault | PipelineBinningModeEnable | PipelineBinningModeDisable

text \<open>
  The runtime settings that the functions modelled read: those of \<^verbatim>\<open>BuildTuningProfile\<close>,
  and the switch of the diagnostic print.
\<close>

record RuntimeSettings =
  overrideShaderParams :: bool
  overrideShaderHashLower :: u64
  overrideShaderHashUpper :: u64
  overrideShaderStage :: u32
  overrideNumVGPRsAvailable :: u32
  overrideMaxLdsSpillDwords :: u32
  overrideUserDataSpillThreshold :: bool
  overrideAllowReZ :: bool
  overrideEnableSelectiveInline :: bool
  overrideDisableLoopUnrolls :: bool
  overrideUseSiScheduler :: bool
  overrideReconfigWorkgroupLayout :: bool
  overrideDisableLicm :: bool
  overrideEnableLoadScalarizer :: bool
  overrideWaveSize :: ShaderWaveSize
  overrideWgpMode :: WgpMode
  overrideUseNgg :: bool
  overrideEnableSubvector :: bool
  overrideWavesPerCu :: u32
  overrideCsTgPerCu :: u32
  overrideUsePbbPerCrc :: PipelineBinningMode
  pipelineProfileDbgPrintProfileMatch :: bool

text \<open>
  The optimizer object: its settings (the member \<^verbatim>\<open>m_settings\<close>, here \<open>settings\<close>, since
  \<open>m_settings\<close> names the settings where \<^verbatim>\<open>BuildTuningProfile\<close> takes them as an argument)
  and its three profiles. \<^verbatim>\<open>m_runtimeProfile\<close> is used only in a build with
  \<^verbatim>\<open>ICD_RUNTIME_APP_PROFILE\<close>.
\<close>

record ShaderOptimizer =
  settings :: RuntimeSettings
  m_appProfile :: PipelineProfile
  m_tuningProfile :: PipelineProfile
  m_runtimeProfile :: PipelineProfile

definition OverrideShaderCreateInfo ::
  "BuildMacros \<Rightarrow> ShaderOptimizer \<Rightarrow> PipelineOptimizerKey \<Rightarrow> ShaderStage
     \<Rightarrow> PipelineShaderOptionsPtr \<Rightarrow> fault + PipelineShaderOptionsPtr" where
  "OverrideShaderCreateInfo cfg this pipelineKey shaderStage options =
     (case ApplyProfileToShaderCreateInfo cfg (m_appProfile this) pipelineKey shaderStage options of
        Inl e \<Rightarrow> Inl e
      | Inr options1 \<Rightarrow>
          (case ApplyProfileToShaderCreateInfo cfg (m_tuningProfile this) pipelineKey shaderStage
                  options1 of
             Inl e \<Rightarrow> Inl e
           | Inr options2 \<Rightarrow>
               if ICD_RUNTIME_APP_PROFILE cfg then
                 ApplyProfileToShaderCreateInfo cfg (m_runtimeProfile this) pipelineKey shaderStage
                   options2
               else Inr options2))"

section \<open>Applying a profile to the pipeline create info\<close>

subsection \<open>The diagnostic print\<close>

text \<open>
  \<^verbatim>\<open>PrintProfileEntryMatch\<close> exists in a build with \<^verbatim>\<open>PAL_ENABLE_PRINTS_ASSERTS\<close>. It takes
  the profile by reference and compares its address with the addresses of the profiles of
  the optimizer, so a reference to a profile is modelled by the profile together with the
  place it lives at.
\<close>

datatype ProfileAddress = AtAppProfile | AtTuningProfile | AtRuntimeProfile | AtOtherProfile

text \<open>
  The lines the function prints go to the debug log and are not modelled. For a profile that
  is neither the application profile nor (in a build with \<^verbatim>\<open>ICD_RUNTIME_APP_PROFILE\<close>) the
  runtime profile it reaches \<^verbatim>\<open>VK_NEVER_CALLED\<close>, an assertion that always fails; the model
  stops there, as it does at a failed \<^verbatim>\<open>VK_ASSERT\<close>. The loop over the stages of the key only
  prints: its \<^verbatim>\<open>default\<close> branch lies outside the range of the loop.
\<close>

definition PrintProfileEntryMatch ::
  "BuildMacros \<Rightarrow> ProfileAddress \<Rightarrow> nat \<Rightarrow> PipelineOptimizerKey \<Rightarrow> fault + unit" where
  "PrintProfileEntryMatch cfg profileAddress entryIndex pipelineKey =
     (if profileAddress = AtAppProfile then Inr ()
      else if ICD_RUNTIME_APP_PROFILE cfg \<and> profileAddress = AtRuntimeProfile then Inr ()
      else Inl AssertFailed)"

subsection \<open>Compute pipelines\<close>

text \<open>
  \<^verbatim>\<open>Pal::DynamicComputeShaderInfo\<close> belongs to another library. The functions below never
  read or write the object behind the pointer, so its type is left open: \<open>'info\<close> stands for
  whatever the pointer refers to.
\<close>

definition ApplyProfileToDynamicComputeShaderInfo :: "ShaderProfileAction \<Rightarrow> 'info \<Rightarrow> 'info" where
  "ApplyProfileToDynamicComputeShaderInfo act pComputeShaderInfo = pComputeShaderInfo"

fun computeLoop ::
  "BuildMacros \<Rightarrow> ShaderOptimizer \<Rightarrow> ProfileAddress \<Rightarrow> PipelineProfile \<Rightarrow> PipelineOptimizerKey
     \<Rightarrow> nat list \<Rightarrow> 'info \<Rightarrow> fault + 'info" where
  "computeLoop cfg this profileAddress profile pipelineKey [] pDynamicComputeShaderInfo =
     Inr pDynamicComputeShaderInfo"
| "computeLoop cfg this profileAddress profile pipelineKey (entry # rest)
     pDynamicComputeShaderInfo =
     (case entryAt profile entry of
        Inl e \<Rightarrow> Inl e
      | Inr profileEntry \<Rightarrow>
          if ProfilePatternMatchesPipeline (pattern profileEntry) pipelineKey then
            (let info' = ApplyProfileToDynamicComputeShaderInfo
                           (action_shaders (action profileEntry) ShaderStageCompute)
                           pDynamicComputeShaderInfo
             in if PAL_ENABLE_PRINTS_ASSERTS cfg \<and>
                   pipelineProfileDbgPrintProfileMatch (settings this) then
                  (case PrintProfileEntryMatch cfg profileAddress entry pipelineKey of
                     Inl e \<Rightarrow> Inl e
                   | Inr _ \<Rightarrow> computeLoop cfg this profileAddress profile pipelineKey rest info')
                else computeLoop cfg this profileAddress profile pipelineKey rest info')
          else computeLoop cfg this profileAddress profile pipelineKey rest
                 pDynamicComputeShaderInfo)"

definition ApplyProfileToComputePipelineCreateInfo ::
  "BuildMacros \<Rightarrow> ShaderOptimizer \<Rightarrow> ProfileAddress \<Rightarrow> PipelineProfile \<Rightarrow> PipelineOptimizerKey
     \<Rightarrow> 'info \<Rightarrow> fault + 'info" where
  "ApplyProfileToComputePipelineCreateInfo cfg this profileAddress profile pipelineKey
     pDynamicComputeShaderInfo =
     computeLoop cfg this profileAddress profile pipelineKey
       [0 ..< unat (entryCount profile)] pDynamicComputeShaderInfo"

definition OverrideComputePipelineCreateInfo ::
  "BuildMacros \<Rightarrow> ShaderOptimizer \<Rightarrow> PipelineOptimizerKey \<Rightarrow> 'info \<Rightarrow> fault + 'info" where
  "OverrideComputePipelineCreateInfo cfg this pipelineKey pDynamicCompueShaderInfo =
     (case ApplyProfileToComputePipelineCreateInfo cfg this AtAppProfile (m_appProfile this)
             pipelineKey pDynamicCompueShaderInfo of
        Inl e \<Rightarrow> Inl e
      | Inr info1 \<Rightarrow>
          (case ApplyProfileToComputePipelineCreateInfo cfg this AtTuningProfile
                  (m_tuningProfile this) pipelineKey info1 of
             Inl e \<Rightarrow> Inl e
           | Inr info2 \<Rightarrow>
               if ICD_RUNTIME_APP_PROFILE cfg then
                 ApplyProfileToComputePipelineCreateInfo cfg this AtRuntimeProfile
                   (m_runtimeProfile this) pipelineKey info2
               else Inr info2))"

subsection \<open>Graphics pipelines\<close>

text \<open>The members of the PAL structures that the graphics path writes.\<close>

record DynamicGraphicsShaderInfo =
  cuEnableMask :: u32

record DynamicGraphicsShaderInfos =
  vs :: DynamicGraphicsShaderInfo
  hs :: DynamicGraphicsShaderInfo
  ds :: DynamicGraphicsShaderInfo
  gs :: DynamicGraphicsShaderInfo
  ps :: DynamicGraphicsShaderInfo

record RasterizerState =
  binningOverride :: BinningOverride

record GraphicsPipelineCreateInfo =
  useLateAllocVsLimit :: bool
  lateAllocVsLimit :: u32
  rsState :: RasterizerState

record GraphicsTargets =
  pPalCreateInfo :: "GraphicsPipelineCreateInfo option"
  pGraphicsShaderInfos :: "DynamicGraphicsShaderInfos option"

text \<open>The stage bits of \<^verbatim>\<open>VkShaderStageFlagBits\<close>, as the Vulkan headers give them.\<close>

definition VK_SHADER_STAGE_VERTEX_BIT :: u32 where
  "VK_SHADER_STAGE_VERTEX_BIT = 0x1"

definition VK_SHADER_STAGE_TESSELLATION_CONTROL_BIT :: u32 where
  "VK_SHADER_STAGE_TESSELLATION_CONTROL_BIT = 0x2"

definition VK_SHADER_STAGE_TESSELLATION_EVALUATION_BIT :: u32 where
  "VK_SHADER_STAGE_TESSELLATION_EVALUATION_BIT = 0x4"

definition VK_SHADER_STAGE_GEOMETRY_BIT :: u32 where
  "VK_SHADER_STAGE_GEOMETRY_BIT = 0x8"

definition VK_SHADER_STAGE_FRAGMENT_BIT :: u32 where
  "VK_SHADER_STAGE_FRAGMENT_BIT = 0x10"

definition onShaderInfos ::
  "(DynamicGraphicsShaderInfos \<Rightarrow> DynamicGraphicsShaderInfos) \<Rightarrow> GraphicsTargets
     \<Rightarrow> fault + GraphicsTargets" where
  "onShaderInfos f targets =
     (case pGraphicsShaderInfos targets of
        None \<Rightarrow> Inl NullPointer
      | Some obj \<Rightarrow> Inr (targets\<lparr>pGraphicsShaderInfos := Some (f obj)\<rparr>))"

definition onCreateInfo ::
  "(GraphicsPipelineCreateInfo \<Rightarrow> GraphicsPipelineCreateInfo) \<Rightarrow> GraphicsTargets
     \<Rightarrow> fault + GraphicsTargets" where
  "onCreateInfo f targets =
     (case pPalCreateInfo targets of
        None \<Rightarrow> Inl NullPointer
      | Some obj \<Rightarrow> Inr (targets\<lparr>pPalCreateInfo := Some (f obj)\<rparr>))"

text \<open>
  \<^verbatim>\<open>ApplyProfileToDynamicGraphicsShaderInfo\<close> receives the address of one member of
  \<^verbatim>\<open>*pGraphicsShaderInfos\<close> (\<^verbatim>\<open>&pGraphicsShaderInfos->vs\<close> and so on), here the update
  function of that member. Taking the address reads no memory: the pointer is followed only
  by the write, under the apply bit.
\<close>

definition ApplyProfileToDynamicGraphicsShaderInfo ::
  "ShaderProfileAction
     \<Rightarrow> ((DynamicGraphicsShaderInfo \<Rightarrow> DynamicGraphicsShaderInfo)
          \<Rightarrow> DynamicGraphicsShaderInfos \<Rightarrow> DynamicGraphicsShaderInfos)
     \<Rightarrow> GraphicsTargets \<Rightarrow> fault + GraphicsTargets" where
  "ApplyProfileToDynamicGraphicsShaderInfo act subobject targets =
     (if apply_cuEnableMask (dsi_apply (dynamicShaderInfo act))
      then onShaderInfos
             (subobject (\<lambda>obj. obj\<lparr>cuEnableMask := dsi_cuEnableMask (dynamicShaderInfo act)\<rparr>))
             targets
      else Inr targets)"

text \<open>The statements of the loop body for a matching entry, in the order of the source.\<close>

definition graphicsWrites ::
  "PipelineProfileEntry \<Rightarrow> u32 \<Rightarrow> (bool \<times> (GraphicsTargets \<Rightarrow> fault + GraphicsTargets)) list" where
  "graphicsWrites profileEntry shaderStages =
     (let stageActions = action_shaders (action profileEntry);
          info = createInfo (action profileEntry) in
      [(shaderStages AND VK_SHADER_STAGE_VERTEX_BIT \<noteq> 0,
          ApplyProfileToDynamicGraphicsShaderInfo (stageActions ShaderStageVertex) vs_update),
       (shaderStages AND VK_SHADER_STAGE_TESSELLATION_CONTROL_BIT \<noteq> 0,
          ApplyProfileToDynamicGraphicsShaderInfo (stageActions ShaderStageTessControl) hs_update),
       (shaderStages AND VK_SHADER_STAGE_TESSELLATION_EVALUATION_BIT \<noteq> 0,
          ApplyProfileToDynamicGraphicsShaderInfo (stageActions ShaderStageTessEvaluation)
            ds_update),
       (shaderStages AND VK_SHADER_STAGE_GEOMETRY_BIT \<noteq> 0,
          ApplyProfileToDynamicGraphicsShaderInfo (stageActions ShaderStageGeometry) gs_update),
       (shaderStages AND VK_SHADER_STAGE_FRAGMENT_BIT \<noteq> 0,
          ApplyProfileToDynamicGraphicsShaderInfo (stageActions ShaderStageFragment) ps_update),
       (apply_lateAllocVsLimit (ci_apply info),
          onCreateInfo (\<lambda>obj. obj\<lparr>useLateAllocVsLimit := True,
                                    lateAllocVsLimit := ci_lateAllocVsLimit info\<rparr>)),
       (apply_binningOverride (ci_apply info),
          onCreateInfo (\<lambda>obj. obj\<lparr>rsState := (rsState obj)
                                    \<lparr>binningOverride := ci_binningOverride info\<rparr>\<rparr>))])"

fun graphicsLoop ::
  "BuildMacros \<Rightarrow> ShaderOptimizer \<Rightarrow> ProfileAddress \<Rightarrow> PipelineProfile \<Rightarrow> PipelineOptimizerKey
     \<Rightarrow> u32 \<Rightarrow> nat list \<Rightarrow> GraphicsTargets \<Rightarrow> fault + GraphicsTargets" where
  "graphicsLoop cfg this profileAddress profile pipelineKey shaderStages [] targets = Inr targets"
| "graphicsLoop cfg this profileAddress profile pipelineKey shaderStages (entry # rest) targets =
     (case entryAt profile entry of
        Inl e \<Rightarrow> Inl e
      | Inr profileEntry \<Rightarrow>
          if ProfilePatternMatchesPipeline (pattern profileEntry) pipelineKey then
            (case runWrites (graphicsWrites profileEntry shaderStages) targets of
               Inl e \<Rightarrow> Inl e
             | Inr targets' \<Rightarrow>
                 if PAL_ENABLE_PRINTS_ASSERTS cfg \<and>
                    pipelineProfileDbgPrintProfileMatch (settings this) then
                   (case PrintProfileEntryMatch cfg profileAddress entry pipelineKey of
                      Inl e \<Rightarrow> Inl e
                    | Inr _ \<Rightarrow> graphicsLoop cfg this profileAddress profile pipelineKey
                                shaderStages rest targets')
                 else graphicsLoop cfg this profileAddress profile pipelineKey shaderStages rest
                        targets')
          else graphicsLoop cfg this profileAddress profile pipelineKey shaderStages rest targets)"

definition ApplyProfileToGraphicsPipelineCreateInfo ::
  "BuildMacros \<Rightarrow> ShaderOptimizer \<Rightarrow> ProfileAddress \<Rightarrow> PipelineProfile \<Rightarrow> PipelineOptimizerKey
     \<Rightarrow> u32 \<Rightarrow> GraphicsTargets \<Rightarrow> fault + GraphicsTargets" where
  "ApplyProfileToGraphicsPipelineCreateInfo cfg this profileAddress profile pipelineKey
     shaderStages targets =
     graphicsLoop cfg this profileAddress profile pipelineKey shaderStages
       [0 ..< unat (entryCount profile)] targets"

definition OverrideGraphicsPipelineCreateInfo ::
  "BuildMacros \<Rightarrow> ShaderOptimizer \<Rightarrow> PipelineOptimizerKey \<Rightarrow> u32 \<Rightarrow> GraphicsTargets
     \<Rightarrow> fault + GraphicsTargets" where
  "OverrideGraphicsPipelineCreateInfo cfg this pipelineKey shaderStages targets =
     (case ApplyProfileToGraphicsPipelineCreateInfo cfg this AtAppProfile (m_appProfile this)
             pipelineKey shaderStages targets of
        Inl e \<Rightarrow> Inl e
      | Inr targets1 \<Rightarrow>
          (case ApplyProfileToGraphicsPipelineCreateInfo cfg this AtTuningProfile
                  (m_tuningProfile this) pipelineKey shaderStages targets1 of
             Inl e \<Rightarrow> Inl e
           | Inr targets2 \<Rightarrow>
               if ICD_RUNTIME_APP_PROFILE cfg then
                 ApplyProfileToGraphicsPipelineCreateInfo cfg this AtRuntimeProfile
                   (m_runtimeProfile this) pipelineKey shaderStages targets2
               else Inr targets2))"

section \<open>Building the tuning profile\<close>

text \<open>
  What \<^verbatim>\<open>memset(pMemory, 0, newSize)\<close> leaves in each entry: every member zero. For the
  binning override, an enumeration of PAL, the value zero is the enumerator \<open>Default\<close>.
\<close>

definition zeroHash :: ShaderHash where
  "zeroHash = \<lparr>lower = 0, upper = 0\<rparr>"

definition zeroShaderPattern :: ShaderProfilePattern where
  "zeroShaderPattern =
     \<lparr>shader_match = \<lparr>stageActive = False, stageInactive = False, match_codeHash = False,
                       codeSizeLessThan = False\<rparr>,
      pattern_codeHash = zeroHash, codeSizeLessThanValue = 0\<rparr>"

definition zeroPattern :: PipelineProfilePattern where
  "zeroPattern = \<lparr>pattern_match = \<lparr>always = False\<rparr>, pattern_shaders = (\<lambda>stage. zeroShaderPattern)\<rparr>"

definition zeroApply :: ShaderCreateApply where
  "zeroApply =
     \<lparr>apply_vgprLimit = False, apply_sgprLimit = False, apply_ldsSpillLimitDwords = False,
      apply_userDataSpillThreshold = False, apply_maxThreadGroupsPerComputeUnit = False,
      apply_debugMode = False, apply_trapPresent = False, apply_allowReZ = False,
      apply_disableLoopUnrolls = False, apply_enableSelectiveInline = False,
      apply_fp32DenormalMode = False, apply_waveSize = False, apply_wgpMode = False,
      apply_waveBreakSize = False, apply_nggDisable = False, apply_nggFasterLaunchRate = False,
      apply_nggVertexReuse = False, apply_nggEnableFrustumCulling = False,
      apply_nggEnableBoxFilterCulling = False, apply_nggEnableSphereCulling = False,
      apply_nggEnableBackfaceCulling = False, apply_nggEnableSmallPrimFilter = False,
      apply_enableSubvector = False\<rparr>"

definition zeroTuningOptions :: ShaderTuningOptions where
  "zeroTuningOptions =
     \<lparr>tune_vgprLimit = 0, tune_sgprLimit = 0, tune_ldsSpillLimitDwords = 0,
      tune_userDataSpillThreshold = 0, tune_maxThreadGroupsPerComputeUnit = 0,
      tune_useSiScheduler = False, tune_reconfigWorkgroupLayout = False,
      tune_enableLoadScalarizer = False, tune_forceLoopUnrollCount = 0, tune_disableLicm = False,
      tune_unrollThreshold = 0, tune_fp32DenormalMode = 0, tune_waveSize = 0,
      tune_waveBreakSize = 0\<rparr>"

definition zeroShaderAction :: ShaderProfileAction where
  "zeroShaderAction =
     \<lparr>dynamicShaderInfo =
        \<lparr>dsi_apply = \<lparr>apply_maxWavesPerCu = False, apply_cuEnableMask = False,
                       apply_maxThreadGroupsPerCu = False\<rparr>,
         dsi_maxWavesPerCu = 0, dsi_cuEnableMask = 0, dsi_maxThreadGroupsPerCu = 0\<rparr>,
      shaderCreate = \<lparr>sc_apply = zeroApply, tuningOptions = zeroTuningOptions\<rparr>\<rparr>"

definition zeroAction :: PipelineProfileAction where
  "zeroAction =
     \<lparr>action_shaders = (\<lambda>stage. zeroShaderAction),
      createInfo = \<lparr>ci_apply = \<lparr>apply_lateAllocVsLimit = False, apply_binningOverride = False\<rparr>,
                    ci_lateAllocVsLimit = 0, ci_binningOverride = BinningOverrideDefault\<rparr>\<rparr>"

definition zeroEntry :: PipelineProfileEntry where
  "zeroEntry = \<lparr>pattern = zeroPattern, action = zeroAction\<rparr>"

text \<open>A run of guarded assignments to one object, carried out in order.\<close>

definition runUpdates :: "(bool \<times> ('s \<Rightarrow> 's)) list \<Rightarrow> 's \<Rightarrow> 's" where
  "runUpdates us s = foldl (\<lambda>acc (c, u). if c then u acc else acc) s us"

text \<open>
  The assignments to \<^verbatim>\<open>pattern\<close>, the pattern of the configured stage
  (\<^verbatim>\<open>entry.pattern.shaders[shaderStage]\<close>).
\<close>

definition tuningShaderPattern :: "RuntimeSettings \<Rightarrow> bool \<Rightarrow> ShaderProfilePattern \<Rightarrow> ShaderProfilePattern" where
  "tuningShaderPattern m_settings matchHash shaderPattern =
     shaderPattern
       \<lparr>shader_match := (shader_match shaderPattern)\<lparr>match_codeHash := matchHash\<rparr>,
        pattern_codeHash := \<lparr>lower = overrideShaderHashLower m_settings,
                             upper = overrideShaderHashUpper m_settings\<rparr>\<rparr>"

text \<open>
  The assignments to \<^verbatim>\<open>action\<close>, the action of the configured stage
  (\<^verbatim>\<open>entry.action.shaders[shaderStage]\<close>), in the order of the source.
\<close>

definition tuningShaderAction ::
  "RuntimeSettings \<Rightarrow> ShaderStage \<Rightarrow> (bool \<times> (ShaderProfileAction \<Rightarrow> ShaderProfileAction)) list" where
  "tuningShaderAction m_settings shaderStage =
     [(overrideNumVGPRsAvailable m_settings \<noteq> 0,
         shaderCreate_update (sc_apply_update (apply_vgprLimit_update (\<lambda>_. True)))),
      (overrideNumVGPRsAvailable m_settings \<noteq> 0,
         shaderCreate_update (tuningOptions_update
           (tune_vgprLimit_update (\<lambda>_. overrideNumVGPRsAvailable m_settings)))),
      (overrideMaxLdsSpillDwords m_settings \<noteq> 0,
         shaderCreate_update (sc_apply_update (apply_ldsSpillLimitDwords_update (\<lambda>_. True)))),
      (overrideMaxLdsSpillDwords m_settings \<noteq> 0,
         shaderCreate_update (tuningOptions_update
           (tune_ldsSpillLimitDwords_update (\<lambda>_. overrideMaxLdsSpillDwords m_settings)))),
      (overrideUserDataSpillThreshold m_settings,
         shaderCreate_update (sc_apply_update (apply_userDataSpillThreshold_update (\<lambda>_. True)))),
      (overrideUserDataSpillThreshold m_settings,
         shaderCreate_update (tuningOptions_update (tune_userDataSpillThreshold_update (\<lambda>_. 0)))),
      (True,
         shaderCreate_update (sc_apply_update
           (apply_allowReZ_update (\<lambda>_. overrideAllowReZ m_settings)))),
      (True,
         shaderCreate_update (sc_apply_update
           (apply_enableSelectiveInline_update (\<lambda>_. overrideEnableSelectiveInline m_settings)))),
      (True,
         shaderCreate_update (sc_apply_update
           (apply_disableLoopUnrolls_update (\<lambda>_. overrideDisableLoopUnrolls m_settings)))),
      (overrideUseSiScheduler m_settings,
         shaderCreate_update (tuningOptions_update (tune_useSiScheduler_update (\<lambda>_. True)))),
      (overrideReconfigWorkgroupLayout m_settings,
         shaderCreate_update (tuningOptions_update
           (tune_reconfigWorkgroupLayout_update (\<lambda>_. True)))),
      (overrideDisableLicm m_settings,
         shaderCreate_update (tuningOptions_update (tune_disableLicm_update (\<lambda>_. True)))),
      (overrideEnableLoadScalarizer m_settings,
         shaderCreate_update (tuningOptions_update
           (tune_enableLoadScalarizer_update (\<lambda>_. True)))),
      (overrideWaveSize m_settings = WaveSize64,
         shaderCreate_update (sc_apply_update (apply_waveSize_update (\<lambda>_. True)))),
      (overrideWaveSize m_settings = WaveSize64,
         shaderCreate_update (tuningOptions_update (tune_waveSize_update (\<lambda>_. 64)))),
      (overrideWaveSize m_settings = WaveSize32,
         shaderCreate_update (sc_apply_update (apply_waveSize_update (\<lambda>_. True)))),
      (overrideWaveSize m_settings = WaveSize32,
         shaderCreate_update (tuningOptions_update (tune_waveSize_update (\<lambda>_. 32)))),
      (overrideWgpMode m_settings = WgpModeWgp,
         shaderCreate_update (sc_apply_update (apply_wgpMode_update (\<lambda>_. True)))),
      (True,
         shaderCreate_update (sc_apply_update
           (apply_nggDisable_update (\<lambda>_. overrideUseNgg m_settings)))),
      (True,
         shaderCreate_update (sc_apply_update
           (apply_enableSubvector_update (\<lambda>_. overrideEnableSubvector m_settings)))),
      (overrideWavesPerCu m_settings \<noteq> 0,
         dynamicShaderInfo_update (dsi_apply_update (apply_maxWavesPerCu_update (\<lambda>_. True)))),
      (overrideWavesPerCu m_settings \<noteq> 0,
         dynamicShaderInfo_update
           (dsi_maxWavesPerCu_update (\<lambda>_. overrideWavesPerCu m_settings))),
      (overrideCsTgPerCu m_settings \<noteq> 0 \<and> shaderStage = ShaderStageCompute,
         dynamicShaderInfo_update
           (dsi_apply_update (apply_maxThreadGroupsPerCu_update (\<lambda>_. True)))),
      (overrideCsTgPerCu m_settings \<noteq> 0 \<and> shaderStage = ShaderStageCompute,
         dynamicShaderInfo_update
           (dsi_maxThreadGroupsPerCu_update (\<lambda>_. overrideCsTgPerCu m_settings)))]"

text \<open>The assignments to \<^verbatim>\<open>entry.action.createInfo\<close> that end the function.\<close>

definition tuningCreateInfo :: "RuntimeSettings \<Rightarrow> CreateInfo \<Rightarrow> CreateInfo" where
  "tuningCreateInfo m_settings info =
     (if overrideUsePbbPerCrc m_settings \<noteq> PipelineBinningModeDefault then
        (info\<lparr>ci_apply := (ci_apply info)\<lparr>apply_binningOverride := True\<rparr>\<rparr>)
          \<lparr>ci_binningOverride :=
             (case overrideUsePbbPerCrc m_settings of
                PipelineBinningModeEnable \<Rightarrow> BinningOverrideEnable
              | PipelineBinningModeDisable \<Rightarrow> BinningOverrideDisable
              | PipelineBinningModeDefault \<Rightarrow> BinningOverrideDefault)\<rparr>
      else info)"

text \<open>
  \<^verbatim>\<open>BuildTuningProfile\<close> returns the new value of \<^verbatim>\<open>m_tuningProfile\<close>. Its inputs besides
  the settings are the constant \<^verbatim>\<open>InitialPipelineProfileEntries\<close>, which a header outside
  the sources defines, and \<open>pMemory\<close>, what the allocation callback returned: \<open>None\<close> for the
  null pointer, otherwise the block of entries with the contents it happens to hold.
  \<^verbatim>\<open>memset\<close> overwrites every entry of the block with zeros. The index
  \<^verbatim>\<open>overrideShaderStage\<close> is asserted to lie inside the per-stage arrays; outside them the
  writes that follow have no defined meaning, and the model stops at the assertion.
\<close>

definition BuildTuningProfile ::
  "u32 \<Rightarrow> RuntimeSettings \<Rightarrow> PipelineProfileEntry list option \<Rightarrow> fault + PipelineProfile" where
  "BuildTuningProfile InitialPipelineProfileEntries m_settings pMemory =
     (if overrideShaderParams m_settings = False \<or> pMemory = None then
        Inr \<lparr>entryCount = 0, entryCapacity = InitialPipelineProfileEntries, pEntries = pMemory\<rparr>
      else
        (case map (\<lambda>_. zeroEntry) (the pMemory) of
           [] \<Rightarrow> Inl OutOfBounds
         | entry # others \<Rightarrow>
             (let matchHash = (overrideShaderHashLower m_settings \<noteq> 0 \<or>
                               overrideShaderHashUpper m_settings \<noteq> 0);
                  entry1 = (if matchHash then entry
                            else entry\<lparr>pattern := (pattern entry)
                                   \<lparr>pattern_match := \<lparr>always = True\<rparr>\<rparr>\<rparr>)
              in case stageOfIndex (overrideShaderStage m_settings) of
                   None \<Rightarrow> Inl AssertFailed
                 | Some shaderStage \<Rightarrow>
                     (let pat = tuningShaderPattern m_settings matchHash
                                  (pattern_shaders (pattern entry1) shaderStage);
                          act = runUpdates (tuningShaderAction m_settings shaderStage)
                                  (action_shaders (action entry1) shaderStage);
                          entry2 = entry1
                            \<lparr>pattern := (pattern entry1)
                               \<lparr>pattern_shaders := (pattern_shaders (pattern entry1))
                                  (shaderStage := pat)\<rparr>,
                             action := (action entry1)
                               \<lparr>action_shaders := (action_shaders (action entry1))
                                  (shaderStage := act),
                                createInfo := tuningCreateInfo m_settings
                                                (createInfo (action entry1))\<rparr>\<rparr>
                      in Inr \<lparr>entryCount = 1, entryCapacity = InitialPipelineProfileEntries,
                              pEntries = Some (entry2 # others)\<rparr>))))"

section \<open>Notions used to state the properties\<close>

text \<open>The four tests of one stage all pass (or are not enabled).\<close>

definition stagePasses :: "PipelineProfilePattern \<Rightarrow> PipelineOptimizerKey \<Rightarrow> ShaderStage \<Rightarrow> bool" where
  "stagePasses pat pipelineKey stage =
     (let shaderPattern = pattern_shaders pat stage; shaderKey = shaders pipelineKey stage in
      \<not> (stageActive (shader_match shaderPattern) \<and> codeSize shaderKey = 0) \<and>
      \<not> (stageInactive (shader_match shaderPattern) \<and> codeSize shaderKey \<noteq> 0) \<and>
      \<not> (match_codeHash (shader_match shaderPattern) \<and>
         (lower (pattern_codeHash shaderPattern) \<noteq> lower (codeHash shaderKey) \<or>
          upper (pattern_codeHash shaderPattern) \<noteq> upper (codeHash shaderKey))) \<and>
      \<not> (codeSizeLessThan (shader_match shaderPattern) \<and>
         codeSizeLessThanValue shaderPattern \<ge> codeSize shaderKey))"

text \<open>A pattern with one test of one stage switched off.\<close>

definition withoutSizeTest :: "ShaderStage \<Rightarrow> PipelineProfilePattern \<Rightarrow> PipelineProfilePattern" where
  "withoutSizeTest stage pat =
     pat\<lparr>pattern_shaders := (pattern_shaders pat)
           (stage := (pattern_shaders pat stage)
              \<lparr>shader_match := (shader_match (pattern_shaders pat stage))
                 \<lparr>codeSizeLessThan := False\<rparr>\<rparr>)\<rparr>"

definition withoutHashTest :: "ShaderStage \<Rightarrow> PipelineProfilePattern \<Rightarrow> PipelineProfilePattern" where
  "withoutHashTest stage pat =
     pat\<lparr>pattern_shaders := (pattern_shaders pat)
           (stage := (pattern_shaders pat stage)
              \<lparr>shader_match := (shader_match (pattern_shaders pat stage))
                 \<lparr>match_codeHash := False\<rparr>\<rparr>)\<rparr>"

text \<open>
  The entries that a loop over a profile visits and whose pattern matches the key, in the
  order of the array.
\<close>

definition matchingEntries :: "PipelineProfile \<Rightarrow> PipelineOptimizerKey \<Rightarrow> PipelineProfileEntry list" where
  "matchingEntries profile pipelineKey =
     (case pEntries profile of
        None \<Rightarrow> []
      | Some entries \<Rightarrow>
          filter (\<lambda>e. ProfilePatternMatchesPipeline (pattern e) pipelineKey)
            (take (unat (entryCount profile)) entries))"

text \<open>\<^verbatim>\<open>profileEntry.action.shaders[shaderStage].shaderCreate\<close>.\<close>

definition stageCreate :: "ShaderStage \<Rightarrow> PipelineProfileEntry \<Rightarrow> ShaderCreate" where
  "stageCreate shaderStage e = shaderCreate (action_shaders (action e) shaderStage)"

text \<open>The entries found at a list of indices; an index outside the array gives none.\<close>

definition entriesAt :: "PipelineProfile \<Rightarrow> nat list \<Rightarrow> PipelineProfileEntry list" where
  "entriesAt profile idxs =
     concat (map (\<lambda>i. case entryAt profile i of Inl _ \<Rightarrow> [] | Inr e \<Rightarrow> [e]) idxs)"

text \<open>The array of a profile holds at least \<^verbatim>\<open>entryCount\<close> entries.\<close>

definition entriesInBounds :: "PipelineProfile \<Rightarrow> bool" where
  "entriesInBounds profile =
     (case pEntries profile of
        None \<Rightarrow> entryCount profile = 0
      | Some entries \<Rightarrow> unat (entryCount profile) \<le> length entries)"

text \<open>
  The value a field holds after a sequence of actions, each of which writes \<open>val c\<close> when
  \<open>gate c\<close> holds and leaves the field alone otherwise.
\<close>

definition lastWrite :: "('c \<Rightarrow> bool) \<Rightarrow> ('c \<Rightarrow> 'v) \<Rightarrow> 'c list \<Rightarrow> 'v option \<Rightarrow> 'v option" where
  "lastWrite gate val cs old = foldl (\<lambda>acc c. if gate c then Some (val c) else acc) old cs"

text \<open>
  The loop body writes the field read by \<open>get\<close> exactly when \<open>gate\<close> holds of the action (and
  the options handle is not null), and then it writes \<open>val\<close>.
\<close>

definition writesField ::
  "BuildMacros \<Rightarrow> (PipelineShaderOptionsPtr \<Rightarrow> 'v option) \<Rightarrow> (ShaderCreate \<Rightarrow> bool)
     \<Rightarrow> (ShaderCreate \<Rightarrow> 'v) \<Rightarrow> bool" where
  "writesField cfg get gate val \<longleftrightarrow>
     (\<forall>create t t'. applyShaderCreate cfg create t = Inr t' \<longrightarrow>
        get t' = (if gate create \<and> pOptions t \<noteq> None then Some (val create) else get t))"

text \<open>
  The per-stage actions of the matching entries of a profile for which \<open>gate\<close> holds, in the
  order of the array.
\<close>

definition setters ::
  "(ShaderCreate \<Rightarrow> bool) \<Rightarrow> ShaderStage \<Rightarrow> PipelineProfile \<Rightarrow> PipelineOptimizerKey
     \<Rightarrow> ShaderCreate list" where
  "setters gate shaderStage profile pipelineKey =
     filter gate (map (stageCreate shaderStage) (matchingEntries profile pipelineKey))"

text \<open>
  What one pass over a profile does to the field read by \<open>get\<close>, when the field is written
  under \<open>gate\<close> with the value \<open>val\<close>. If \<open>gate\<close> holds of no matching entry, or the options
  handle is null, the field is the same before and after. If the handle is not null and
  \<open>gate\<close> holds of some matching entry, the field holds the value written for the last such
  entry.
\<close>

definition gatedField ::
  "(PipelineShaderOptionsPtr \<Rightarrow> 'v option) \<Rightarrow> (ShaderCreate \<Rightarrow> bool) \<Rightarrow> (ShaderCreate \<Rightarrow> 'v)
     \<Rightarrow> PipelineProfile \<Rightarrow> PipelineOptimizerKey \<Rightarrow> ShaderStage \<Rightarrow> PipelineShaderOptionsPtr
     \<Rightarrow> PipelineShaderOptionsPtr \<Rightarrow> bool" where
  "gatedField get gate val profile pipelineKey shaderStage options options' \<longleftrightarrow>
     ((\<forall>e\<in>set (matchingEntries profile pipelineKey). \<not> gate (stageCreate shaderStage e))
        \<longrightarrow> get options' = get options) \<and>
     (pOptions options = None \<longrightarrow> get options' = get options) \<and>
     (pOptions options \<noteq> None \<and> setters gate shaderStage profile pipelineKey \<noteq> []
        \<longrightarrow> get options' = Some (val (last (setters gate shaderStage profile pipelineKey))))"


section \<open>Concrete inputs\<close>

definition exampleMacros :: BuildMacros where
  "exampleMacros =
     \<lparr>ICD_RUNTIME_APP_PROFILE = True, LLPC_CLIENT_INTERFACE_MAJOR_VERSION = 44,
      PAL_ENABLE_PRINTS_ASSERTS = True\<rparr>"

text \<open>A pipeline with no active stage, and one whose only active stage is the fragment shader.\<close>

definition zeroKey :: PipelineOptimizerKey where
  "zeroKey = \<lparr>shaders = (\<lambda>stage. \<lparr>codeHash = zeroHash, codeSize = 0\<rparr>)\<rparr>"

definition fragmentKey :: PipelineOptimizerKey where
  "fragmentKey =
     \<lparr>shaders = (\<lambda>stage. \<lparr>codeHash = zeroHash, codeSize = 0\<rparr>)
        (ShaderStageFragment :=
           \<lparr>codeHash = \<lparr>lower = 0xdd6c573c46e6adf8, upper = 0x751207727c904749\<rparr>,
            codeSize = 200\<rparr>)\<rparr>"

text \<open>The pattern of the first entry that \<^verbatim>\<open>BuildAppProfileLlpc\<close> adds for Dota 2.\<close>

definition dota2Pattern :: PipelineProfilePattern where
  "dota2Pattern =
     zeroPattern\<lparr>pattern_shaders := (\<lambda>stage. zeroShaderPattern)
       (ShaderStageFragment :=
          \<lparr>shader_match = \<lparr>stageActive = True, stageInactive = False, match_codeHash = True,
                            codeSizeLessThan = False\<rparr>,
           pattern_codeHash = \<lparr>lower = 0xdd6c573c46e6adf8, upper = 0x751207727c904749\<rparr>,
           codeSizeLessThanValue = 0\<rparr>)\<rparr>"

text \<open>A pattern that asks for a fragment shader of more than 100 bytes.\<close>

definition sizePattern :: PipelineProfilePattern where
  "sizePattern =
     zeroPattern\<lparr>pattern_shaders := (\<lambda>stage. zeroShaderPattern)
       (ShaderStageFragment :=
          \<lparr>shader_match = \<lparr>stageActive = False, stageInactive = False, match_codeHash = False,
                            codeSizeLessThan = True\<rparr>,
           pattern_codeHash = zeroHash,
           codeSizeLessThanValue = 100\<rparr>)\<rparr>"

definition alwaysPattern :: PipelineProfilePattern where
  "alwaysPattern = zeroPattern\<lparr>pattern_match := \<lparr>always = True\<rparr>\<rparr>"

text \<open>An entry that always matches and carries the same shader-create action for every stage.\<close>

definition entryWith :: "ShaderCreate \<Rightarrow> PipelineProfileEntry" where
  "entryWith create =
     \<lparr>pattern = alwaysPattern,
      action = zeroAction\<lparr>action_shaders := (\<lambda>stage. zeroShaderAction\<lparr>shaderCreate := create\<rparr>)\<rparr>\<rparr>"

definition singleProfile :: "PipelineProfileEntry \<Rightarrow> PipelineProfile" where
  "singleProfile e = \<lparr>entryCount = 1, entryCapacity = 1, pEntries = Some [e]\<rparr>"

definition emptyProfile :: PipelineProfile where
  "emptyProfile = \<lparr>entryCount = 0, entryCapacity = 0, pEntries = None\<rparr>"

text \<open>No apply bit set; a loop-unroll count of 5 as payload.\<close>

definition unrollCreate :: ShaderCreate where
  "unrollCreate =
     \<lparr>sc_apply = zeroApply,
      tuningOptions = zeroTuningOptions\<lparr>tune_forceLoopUnrollCount := 5\<rparr>\<rparr>"

text \<open>
  The apply bit of the SGPR limit set, with limit 100; a VGPR limit of 24 as payload whose
  apply bit is unset; an unroll threshold of 7 as payload.
\<close>

definition mixedCreate :: ShaderCreate where
  "mixedCreate =
     \<lparr>sc_apply = zeroApply\<lparr>apply_sgprLimit := True\<rparr>,
      tuningOptions = zeroTuningOptions
        \<lparr>tune_vgprLimit := 24, tune_sgprLimit := 100, tune_unrollThreshold := 7\<rparr>\<rparr>"

text \<open>The apply bit of the VGPR limit set, with the given limit.\<close>

definition vgprCreate :: "u32 \<Rightarrow> ShaderCreate" where
  "vgprCreate n =
     \<lparr>sc_apply = zeroApply\<lparr>apply_vgprLimit := True\<rparr>,
      tuningOptions = zeroTuningOptions\<lparr>tune_vgprLimit := n\<rparr>\<rparr>"

text \<open>
  Settings that ask for a VGPR limit on the fragment shader with the hash above, with the
  diagnostic print switched off.
\<close>

definition exampleSettings :: RuntimeSettings where
  "exampleSettings =
     \<lparr>overrideShaderParams = True,
      overrideShaderHashLower = 0xdd6c573c46e6adf8,
      overrideShaderHashUpper = 0x751207727c904749,
      overrideShaderStage = 4,
      overrideNumVGPRsAvailable = 64,
      overrideMaxLdsSpillDwords = 0,
      overrideUserDataSpillThreshold = False,
      overrideAllowReZ = False,
      overrideEnableSelectiveInline = False,
      overrideDisableLoopUnrolls = False,
      overrideUseSiScheduler = False,
      overrideReconfigWorkgroupLayout = False,
      overrideDisableLicm = False,
      overrideEnableLoadScalarizer = False,
      overrideWaveSize = WaveSizeAuto,
      overrideWgpMode = WgpModeAuto,
      overrideUseNgg = False,
      overrideEnableSubvector = False,
      overrideWavesPerCu = 0,
      overrideCsTgPerCu = 0,
      overrideUsePbbPerCrc = PipelineBinningModeDefault,
      pipelineProfileDbgPrintProfileMatch = False\<rparr>"

definition exampleOptimizer :: ShaderOptimizer where
  "exampleOptimizer =
     \<lparr>settings = exampleSettings,
      m_appProfile = singleProfile (entryWith (vgprCreate 32)),
      m_tuningProfile = singleProfile (entryWith (vgprCreate 64)),
      m_runtimeProfile = emptyProfile\<rparr>"

text \<open>The same optimizer with the diagnostic print switched on.\<close>

definition printingOptimizer :: ShaderOptimizer where
  "printingOptimizer =
     exampleOptimizer\<lparr>settings := exampleSettings\<lparr>pipelineProfileDbgPrintProfileMatch := True\<rparr>\<rparr>"

definition defaultShaderOptions :: PipelineShaderOptions where
  "defaultShaderOptions =
     \<lparr>vgprLimit = 0, sgprLimit = 0, maxThreadGroupsPerComputeUnit = 0, debugMode = False,
      trapPresent = False, allowReZ = False, disableLoopUnroll = False, useSiScheduler = False,
      enableLoadScalarizer = False, forceLoopUnrollCount = 0, disableLicm = False,
      unrollThreshold = 0, fp32DenormalMode = 0, waveSize = 0, wgpMode = False,
      waveBreakSize = 0\<rparr>"

definition defaultOptions :: PipelineShaderOptionsPtr where
  "defaultOptions =
     \<lparr>pPipelineOptions = Some \<lparr>reconfigWorkgroupLayout = False\<rparr>,
      pOptions = Some defaultShaderOptions,
      pNggState = Some \<lparr>enableNgg = True, enableFastLaunch = False, enableVertexReuse = False,
                        enableFrustumCulling = False, enableBoxFilterCulling = False,
                        enableSphereCulling = False, enableBackfaceCulling = False,
                        enableSmallPrimFilter = False\<rparr>\<rparr>"

definition nullOptions :: PipelineShaderOptionsPtr where
  "nullOptions = defaultOptions\<lparr>pOptions := None\<rparr>"

section \<open>Properties of the pattern matcher\<close>

lemma u32All_eq_0_iff:
  "u32All m = 0 \<longleftrightarrow>
     \<not> stageActive m \<and> \<not> stageInactive m \<and> \<not> match_codeHash m \<and> \<not> codeSizeLessThan m"
  by (cases "stageActive m"; cases "stageInactive m"; cases "match_codeHash m";
      cases "codeSizeLessThan m") (simp_all add: u32All_def)

lemma matchStages_iff:
  "matchStages stages pat pipelineKey \<longleftrightarrow> (\<forall>stage\<in>set stages. stagePasses pat pipelineKey stage)"
  by (induction stages) (auto simp: Let_def u32All_eq_0_iff stagePasses_def)

lemma set_stageRange: "set stageRange = UNIV"
proof -
  have "stage \<in> set stageRange" for stage
    by (cases stage) (simp_all add: stageRange_def)
  then show ?thesis by blast
qed

lemma matches_iff:
  "ProfilePatternMatchesPipeline pat pipelineKey \<longleftrightarrow>
     always (pattern_match pat) \<or> (\<forall>stage. stagePasses pat pipelineKey stage)"
  by (simp add: ProfilePatternMatchesPipeline_def matchStages_iff set_stageRange)

lemma stagePasses_zero [simp]: "stagePasses zeroPattern pipelineKey stage"
  by (simp add: stagePasses_def zeroPattern_def zeroShaderPattern_def)

text \<open>
  C4. A pattern whose always flag is set matches every pipeline key, whatever its per-stage
  patterns hold: the result does not depend on any per-stage test.
\<close>

theorem always_matches:
  assumes "always (pattern_match pat)"
  shows "ProfilePatternMatchesPipeline pat pipelineKey"
  using assms by (simp add: ProfilePatternMatchesPipeline_def)

theorem always_matches_witness:
  "always (pattern_match alwaysPattern) \<and> ProfilePatternMatchesPipeline alwaysPattern fragmentKey"
proof -
  have h: "always (pattern_match alwaysPattern)"
    by (simp add: alwaysPattern_def)
  show ?thesis using h always_matches [OF h, of fragmentKey] by simp
qed

text \<open>
  C5. A pattern whose always flag is unset and in which no stage has a test enabled (the
  match bits of every stage are zero) matches every pipeline key.
\<close>

theorem empty_pattern_matches:
  assumes "\<not> always (pattern_match pat)"
      and "\<forall>stage. u32All (shader_match (pattern_shaders pat stage)) = 0"
  shows "ProfilePatternMatchesPipeline pat pipelineKey"
proof -
  have "stagePasses pat pipelineKey stage" for stage
    using assms(2) by (simp add: stagePasses_def u32All_eq_0_iff)
  then show ?thesis by (simp add: matches_iff)
qed

theorem empty_pattern_matches_witness:
  "\<not> always (pattern_match zeroPattern) \<and>
   (\<forall>stage. u32All (shader_match (pattern_shaders zeroPattern stage)) = 0) \<and>
   ProfilePatternMatchesPipeline zeroPattern fragmentKey"
proof -
  have h1: "\<not> always (pattern_match zeroPattern)"
    by (simp add: zeroPattern_def)
  have h2: "\<forall>stage. u32All (shader_match (pattern_shaders zeroPattern stage)) = 0"
    by (simp add: zeroPattern_def zeroShaderPattern_def u32All_def)
  show ?thesis using h1 h2 empty_pattern_matches [OF h1 h2, of fragmentKey] by simp
qed

text \<open>
  C2. Let the always flag be unset and the size-less-than test of a stage be enabled, with
  threshold \<open>T\<close> (\<^verbatim>\<open>codeSizeLessThanValue\<close>) and key size \<open>S\<close>. If \<open>T \<ge> S\<close> the pattern does
  not match. The pattern matches exactly when \<open>T < S\<close> and no other test fails, that is, when
  the pattern with this one test switched off matches.
\<close>

theorem size_test_boundary:
  assumes "\<not> always (pattern_match pat)"
      and "codeSizeLessThan (shader_match (pattern_shaders pat stage))"
  shows "(codeSizeLessThanValue (pattern_shaders pat stage) \<ge> codeSize (shaders pipelineKey stage)
            \<longrightarrow> \<not> ProfilePatternMatchesPipeline pat pipelineKey) \<and>
         (ProfilePatternMatchesPipeline pat pipelineKey \<longleftrightarrow>
            codeSizeLessThanValue (pattern_shaders pat stage) < codeSize (shaders pipelineKey stage) \<and>
            ProfilePatternMatchesPipeline (withoutSizeTest stage pat) pipelineKey)"
proof -
  let ?p' = "withoutSizeTest stage pat"
  have other: "stagePasses ?p' pipelineKey s = stagePasses pat pipelineKey s" if "s \<noteq> stage" for s
    using that by (simp add: stagePasses_def withoutSizeTest_def)
  have this_stage: "stagePasses pat pipelineKey stage \<longleftrightarrow>
      codeSizeLessThanValue (pattern_shaders pat stage) < codeSize (shaders pipelineKey stage) \<and>
      stagePasses ?p' pipelineKey stage"
    using assms(2) by (auto simp: stagePasses_def Let_def withoutSizeTest_def)
  have "(\<forall>s. stagePasses pat pipelineKey s) \<longleftrightarrow>
      codeSizeLessThanValue (pattern_shaders pat stage) < codeSize (shaders pipelineKey stage) \<and>
      (\<forall>s. stagePasses ?p' pipelineKey s)"
    using other this_stage by metis
  moreover have "\<not> always (pattern_match ?p')"
    using assms(1) by (simp add: withoutSizeTest_def)
  ultimately show ?thesis
    using assms(1) by (auto simp: matches_iff)
qed

theorem size_test_boundary_witness:
  "\<not> always (pattern_match sizePattern) \<and>
   codeSizeLessThan (shader_match (pattern_shaders sizePattern ShaderStageFragment)) \<and>
   ProfilePatternMatchesPipeline sizePattern fragmentKey \<and>
   \<not> ProfilePatternMatchesPipeline sizePattern zeroKey"
proof -
  have h1: "\<not> always (pattern_match sizePattern)"
    by (simp add: sizePattern_def zeroPattern_def)
  have h2: "codeSizeLessThan (shader_match (pattern_shaders sizePattern ShaderStageFragment))"
    by (simp add: sizePattern_def)
  have rest: "ProfilePatternMatchesPipeline (withoutSizeTest ShaderStageFragment sizePattern) fragmentKey"
    by (simp add: matches_iff stagePasses_def withoutSizeTest_def sizePattern_def
          zeroShaderPattern_def)
  have lt: "codeSizeLessThanValue (pattern_shaders sizePattern ShaderStageFragment)
              < codeSize (shaders fragmentKey ShaderStageFragment)"
    by (simp add: sizePattern_def fragmentKey_def)
  have ge: "codeSizeLessThanValue (pattern_shaders sizePattern ShaderStageFragment)
              \<ge> codeSize (shaders zeroKey ShaderStageFragment)"
    by (simp add: zeroKey_def)
  show ?thesis
    using h1 h2 rest lt ge
      size_test_boundary [OF h1 h2, of fragmentKey]
      size_test_boundary [OF h1 h2, of zeroKey]
    by blast
qed

text \<open>
  C6. Let the always flag be unset and the hash test of a stage be enabled. If the hash of
  the key for that stage differs from the hash of the pattern in the lower or in the upper
  half, the pattern does not match. The pattern matches exactly when both halves agree and no
  other test fails, that is, when the pattern with this one test switched off matches.
\<close>

theorem hash_test:
  assumes "\<not> always (pattern_match pat)"
      and "match_codeHash (shader_match (pattern_shaders pat stage))"
  shows "(lower (pattern_codeHash (pattern_shaders pat stage))
              \<noteq> lower (codeHash (shaders pipelineKey stage)) \<or>
          upper (pattern_codeHash (pattern_shaders pat stage))
              \<noteq> upper (codeHash (shaders pipelineKey stage))
            \<longrightarrow> \<not> ProfilePatternMatchesPipeline pat pipelineKey) \<and>
         (ProfilePatternMatchesPipeline pat pipelineKey \<longleftrightarrow>
            lower (pattern_codeHash (pattern_shaders pat stage))
              = lower (codeHash (shaders pipelineKey stage)) \<and>
            upper (pattern_codeHash (pattern_shaders pat stage))
              = upper (codeHash (shaders pipelineKey stage)) \<and>
            ProfilePatternMatchesPipeline (withoutHashTest stage pat) pipelineKey)"
proof -
  let ?p' = "withoutHashTest stage pat"
  let ?eq = "lower (pattern_codeHash (pattern_shaders pat stage))
               = lower (codeHash (shaders pipelineKey stage)) \<and>
             upper (pattern_codeHash (pattern_shaders pat stage))
               = upper (codeHash (shaders pipelineKey stage))"
  have other: "stagePasses ?p' pipelineKey s = stagePasses pat pipelineKey s" if "s \<noteq> stage" for s
    using that by (simp add: stagePasses_def withoutHashTest_def)
  have this_stage: "stagePasses pat pipelineKey stage \<longleftrightarrow> ?eq \<and> stagePasses ?p' pipelineKey stage"
    using assms(2) by (auto simp: stagePasses_def Let_def withoutHashTest_def)
  have "(\<forall>s. stagePasses pat pipelineKey s) \<longleftrightarrow> ?eq \<and> (\<forall>s. stagePasses ?p' pipelineKey s)"
    using other this_stage by metis
  moreover have "\<not> always (pattern_match ?p')"
    using assms(1) by (simp add: withoutHashTest_def)
  ultimately show ?thesis
    using assms(1) by (auto simp: matches_iff)
qed

theorem hash_test_witness:
  "\<not> always (pattern_match dota2Pattern) \<and>
   match_codeHash (shader_match (pattern_shaders dota2Pattern ShaderStageFragment)) \<and>
   ProfilePatternMatchesPipeline dota2Pattern fragmentKey \<and>
   \<not> ProfilePatternMatchesPipeline dota2Pattern zeroKey"
proof -
  have h1: "\<not> always (pattern_match dota2Pattern)"
    by (simp add: dota2Pattern_def zeroPattern_def)
  have h2: "match_codeHash (shader_match (pattern_shaders dota2Pattern ShaderStageFragment))"
    by (simp add: dota2Pattern_def)
  have rest: "ProfilePatternMatchesPipeline (withoutHashTest ShaderStageFragment dota2Pattern) fragmentKey"
    by (simp add: matches_iff stagePasses_def withoutHashTest_def dota2Pattern_def
          zeroShaderPattern_def fragmentKey_def)
  have same: "lower (pattern_codeHash (pattern_shaders dota2Pattern ShaderStageFragment))
                = lower (codeHash (shaders fragmentKey ShaderStageFragment)) \<and>
              upper (pattern_codeHash (pattern_shaders dota2Pattern ShaderStageFragment))
                = upper (codeHash (shaders fragmentKey ShaderStageFragment))"
    by (simp add: dota2Pattern_def fragmentKey_def)
  have differs: "lower (pattern_codeHash (pattern_shaders dota2Pattern ShaderStageFragment))
                   \<noteq> lower (codeHash (shaders zeroKey ShaderStageFragment))"
    by (simp add: dota2Pattern_def zeroKey_def zeroHash_def)
  show ?thesis
    using h1 h2 rest same differs
      hash_test [OF h1 h2, of fragmentKey]
      hash_test [OF h1 h2, of zeroKey]
    by blast
qed

section \<open>Properties of the shader-stage path\<close>

subsection \<open>Runs of guarded writes\<close>

lemma onOptions_Inr:
  "onOptions f t = Inr t' \<longleftrightarrow> (\<exists>obj. pOptions t = Some obj \<and> t' = t\<lparr>pOptions := Some (f obj)\<rparr>)"
  by (auto simp: onOptions_def split: option.splits)

lemma onPipelineOptions_Inr:
  "onPipelineOptions f t = Inr t' \<longleftrightarrow>
     (\<exists>obj. pPipelineOptions t = Some obj \<and> t' = t\<lparr>pPipelineOptions := Some (f obj)\<rparr>)"
  by (auto simp: onPipelineOptions_def split: option.splits)

lemma onNggState_Inr:
  "onNggState f t = Inr t' \<longleftrightarrow> (\<exists>obj. pNggState t = Some obj \<and> t' = t\<lparr>pNggState := Some (f obj)\<rparr>)"
  by (auto simp: onNggState_def split: option.splits)

lemma onOptions_all:
  "(\<forall>t t'. onOptions f t = Inr t' \<longrightarrow> P t t') \<longleftrightarrow>
     (\<forall>t obj. pOptions t = Some obj \<longrightarrow> P t (t\<lparr>pOptions := Some (f obj)\<rparr>))"
  by (auto simp: onOptions_Inr)

lemma onPipelineOptions_all:
  "(\<forall>t t'. onPipelineOptions f t = Inr t' \<longrightarrow> P t t') \<longleftrightarrow>
     (\<forall>t obj. pPipelineOptions t = Some obj \<longrightarrow> P t (t\<lparr>pPipelineOptions := Some (f obj)\<rparr>))"
  by (auto simp: onPipelineOptions_Inr)

lemma onNggState_all:
  "(\<forall>t t'. onNggState f t = Inr t' \<longrightarrow> P t t') \<longleftrightarrow>
     (\<forall>t obj. pNggState t = Some obj \<longrightarrow> P t (t\<lparr>pNggState := Some (f obj)\<rparr>))"
  by (auto simp: onNggState_Inr)

lemmas write_all = onOptions_all onPipelineOptions_all onNggState_all

text \<open>A run in which no enabled write touches a field leaves the field as it was.\<close>

lemma runWrites_keeps:
  assumes "runWrites ws s = Inr s'"
      and "\<forall>(c, w)\<in>set ws. c \<longrightarrow> (\<forall>t t'. w t = Inr t' \<longrightarrow> get t' = get t)"
  shows "get s' = get s"
  using assms
proof (induction ws arbitrary: s)
  case Nil
  then show ?case by simp
next
  case (Cons cw ws)
  obtain c w where cw: "cw = (c, w)" by (cases cw)
  show ?case
  proof (cases c)
    case True
    with Cons.prems(1) cw obtain s1 where s1: "w s = Inr s1" "runWrites ws s1 = Inr s'"
      by (auto split: sum.splits)
    have "get s1 = get s" using Cons.prems(2) cw True s1(1) by auto
    moreover have "get s' = get s1" using Cons.IH [OF s1(2)] Cons.prems(2) by auto
    ultimately show ?thesis by simp
  next
    case False
    with Cons.prems(1) cw have "runWrites ws s = Inr s'" by simp
    then show ?thesis using Cons.IH Cons.prems(2) by auto
  qed
qed

text \<open>
  A run in which every enabled write keeps a field or sets it to \<open>v\<close>, and some enabled write
  sets it to \<open>v\<close>, ends with the field at \<open>v\<close>.
\<close>

lemma runWrites_sets:
  assumes "runWrites ws s = Inr s'"
      and "\<forall>(c, w)\<in>set ws. c \<longrightarrow> (\<forall>t t'. w t = Inr t' \<longrightarrow> get t' = get t \<or> get t' = v)"
      and "get s = v \<or> (\<exists>(c, w)\<in>set ws. c \<and> (\<forall>t t'. w t = Inr t' \<longrightarrow> get t' = v))"
  shows "get s' = v"
  using assms
proof (induction ws arbitrary: s)
  case Nil
  then show ?case by simp
next
  case (Cons cw ws)
  obtain c w where cw: "cw = (c, w)" by (cases cw)
  have rest: "\<forall>(c, w)\<in>set ws. c \<longrightarrow> (\<forall>t t'. w t = Inr t' \<longrightarrow> get t' = get t \<or> get t' = v)"
    using Cons.prems(2) by auto
  show ?case
  proof (cases c)
    case True
    with Cons.prems(1) cw obtain s1 where s1: "w s = Inr s1" "runWrites ws s1 = Inr s'"
      by (auto split: sum.splits)
    have step: "get s1 = get s \<or> get s1 = v" using Cons.prems(2) cw True s1(1) by auto
    have "get s1 = v \<or> (\<exists>(c, w)\<in>set ws. c \<and> (\<forall>t t'. w t = Inr t' \<longrightarrow> get t' = v))"
      using Cons.prems(3) cw True s1(1) step by auto
    then show ?thesis using Cons.IH [OF s1(2) rest] by simp
  next
    case False
    with Cons.prems(1) cw have run: "runWrites ws s = Inr s'" by simp
    have "get s = v \<or> (\<exists>(c, w)\<in>set ws. c \<and> (\<forall>t t'. w t = Inr t' \<longrightarrow> get t' = v))"
      using Cons.prems(3) cw False by auto
    then show ?thesis using Cons.IH [OF run rest] by simp
  qed
qed

lemma writesFieldI:
  assumes steps: "\<And>create. \<forall>(c, w)\<in>set (shaderCreateWrites cfg create).
                    c \<longrightarrow> (\<forall>t t'. w t = Inr t' \<longrightarrow>
                           get t' = get t \<or> (gate create \<and> get t' = Some (val create)))"
      and writer: "\<And>create. gate create \<longrightarrow> (\<exists>(c, w)\<in>set (shaderCreateWrites cfg create).
                    c \<and> (\<forall>t t'. w t = Inr t' \<longrightarrow> get t' = Some (val create)))"
  shows "writesField cfg get gate val"
  unfolding writesField_def
proof (intro allI impI)
  fix create t t'
  assume run: "applyShaderCreate cfg create t = Inr t'"
  show "get t' = (if gate create \<and> pOptions t \<noteq> None then Some (val create) else get t)"
  proof (cases "pOptions t = None")
    case True
    with run show ?thesis by (simp add: applyShaderCreate_def)
  next
    case False
    with run have rw: "runWrites (shaderCreateWrites cfg create) t = Inr t'"
      by (simp add: applyShaderCreate_def)
    show ?thesis
    proof (cases "gate create")
      case True
      have weaker: "\<forall>(c, w)\<in>set (shaderCreateWrites cfg create).
              c \<longrightarrow> (\<forall>t t'. w t = Inr t' \<longrightarrow> get t' = get t \<or> get t' = Some (val create))"
        using steps [of create] by fastforce
      have "get t' = Some (val create)"
        using runWrites_sets [OF rw weaker] writer [of create] True by blast
      with True False show ?thesis by simp
    next
      case no: False
      have kept: "\<forall>(c, w)\<in>set (shaderCreateWrites cfg create).
              c \<longrightarrow> (\<forall>t t'. w t = Inr t' \<longrightarrow> get t' = get t)"
        using steps [of create] no by fastforce
      have "get t' = get t"
        by (rule runWrites_keeps [OF rw kept])
      with no show ?thesis by simp
    qed
  qed
qed

subsection \<open>What the loop body does to each target field\<close>

text \<open>
  One lemma for each field that \<^verbatim>\<open>ApplyProfileToShaderCreateInfo\<close> writes: the condition under
  which the body writes it, and the value written.
\<close>

lemma writes_vgprLimit:
  "writesField cfg (\<lambda>t. map_option vgprLimit (pOptions t))
     (\<lambda>c. apply_vgprLimit (sc_apply c))
     (\<lambda>c. tune_vgprLimit (tuningOptions c))"
  by (rule writesFieldI; simp add: shaderCreateWrites_def write_all)

lemma writes_sgprLimit:
  "writesField cfg (\<lambda>t. map_option sgprLimit (pOptions t))
     (\<lambda>c. apply_sgprLimit (sc_apply c))
     (\<lambda>c. tune_sgprLimit (tuningOptions c))"
  by (rule writesFieldI; simp add: shaderCreateWrites_def write_all)

lemma writes_maxThreadGroupsPerComputeUnit:
  "writesField cfg (\<lambda>t. map_option maxThreadGroupsPerComputeUnit (pOptions t))
     (\<lambda>c. apply_maxThreadGroupsPerComputeUnit (sc_apply c))
     (\<lambda>c. tune_maxThreadGroupsPerComputeUnit (tuningOptions c))"
  by (rule writesFieldI; simp add: shaderCreateWrites_def write_all)

lemma writes_debugMode:
  "writesField cfg (\<lambda>t. map_option debugMode (pOptions t))
     (\<lambda>c. apply_debugMode (sc_apply c))
     (\<lambda>c. True)"
  by (rule writesFieldI; simp add: shaderCreateWrites_def write_all)

lemma writes_trapPresent:
  "writesField cfg (\<lambda>t. map_option trapPresent (pOptions t))
     (\<lambda>c. apply_trapPresent (sc_apply c))
     (\<lambda>c. True)"
  by (rule writesFieldI; simp add: shaderCreateWrites_def write_all)

lemma writes_allowReZ:
  "writesField cfg (\<lambda>t. map_option allowReZ (pOptions t))
     (\<lambda>c. apply_allowReZ (sc_apply c))
     (\<lambda>c. True)"
  by (rule writesFieldI; simp add: shaderCreateWrites_def write_all)

lemma writes_disableLoopUnroll:
  "writesField cfg (\<lambda>t. map_option disableLoopUnroll (pOptions t))
     (\<lambda>c. apply_disableLoopUnrolls (sc_apply c))
     (\<lambda>c. True)"
  by (rule writesFieldI; simp add: shaderCreateWrites_def write_all)

lemma writes_useSiScheduler:
  "writesField cfg (\<lambda>t. map_option useSiScheduler (pOptions t))
     (\<lambda>c. tune_useSiScheduler (tuningOptions c))
     (\<lambda>c. True)"
  by (rule writesFieldI; simp add: shaderCreateWrites_def write_all)

lemma writes_reconfigWorkgroupLayout:
  "writesField cfg (\<lambda>t. map_option reconfigWorkgroupLayout (pPipelineOptions t))
     (\<lambda>c. tune_reconfigWorkgroupLayout (tuningOptions c))
     (\<lambda>c. True)"
  by (rule writesFieldI; simp add: shaderCreateWrites_def write_all)

lemma writes_enableLoadScalarizer:
  "writesField cfg (\<lambda>t. map_option enableLoadScalarizer (pOptions t))
     (\<lambda>c. tune_enableLoadScalarizer (tuningOptions c))
     (\<lambda>c. True)"
  by (rule writesFieldI; simp add: shaderCreateWrites_def write_all)

lemma writes_forceLoopUnrollCount:
  "writesField cfg (\<lambda>t. map_option forceLoopUnrollCount (pOptions t))
     (\<lambda>c. tune_forceLoopUnrollCount (tuningOptions c) \<noteq> 0)
     (\<lambda>c. tune_forceLoopUnrollCount (tuningOptions c))"
  by (rule writesFieldI; simp add: shaderCreateWrites_def write_all)

lemma writes_disableLicm:
  "writesField cfg (\<lambda>t. map_option disableLicm (pOptions t))
     (\<lambda>c. tune_disableLicm (tuningOptions c))
     (\<lambda>c. True)"
  by (rule writesFieldI; simp add: shaderCreateWrites_def write_all)

lemma writes_unrollThreshold:
  "writesField cfg (\<lambda>t. map_option unrollThreshold (pOptions t))
     (\<lambda>c. tune_unrollThreshold (tuningOptions c) \<noteq> 0)
     (\<lambda>c. tune_unrollThreshold (tuningOptions c))"
  by (rule writesFieldI; simp add: shaderCreateWrites_def write_all)

lemma writes_fp32DenormalMode:
  "writesField cfg (\<lambda>t. map_option fp32DenormalMode (pOptions t))
     (\<lambda>c. apply_fp32DenormalMode (sc_apply c))
     (\<lambda>c. tune_fp32DenormalMode (tuningOptions c))"
  by (rule writesFieldI; simp add: shaderCreateWrites_def write_all)

lemma writes_waveSize:
  "writesField cfg (\<lambda>t. map_option waveSize (pOptions t))
     (\<lambda>c. apply_waveSize (sc_apply c))
     (\<lambda>c. tune_waveSize (tuningOptions c))"
  by (rule writesFieldI; simp add: shaderCreateWrites_def write_all)

lemma writes_wgpMode:
  "writesField cfg (\<lambda>t. map_option wgpMode (pOptions t))
     (\<lambda>c. apply_wgpMode (sc_apply c))
     (\<lambda>c. True)"
  by (rule writesFieldI; simp add: shaderCreateWrites_def write_all)

lemma writes_waveBreakSize:
  "writesField cfg (\<lambda>t. map_option waveBreakSize (pOptions t))
     (\<lambda>c. apply_waveBreakSize (sc_apply c))
     (\<lambda>c. tune_waveBreakSize (tuningOptions c))"
  by (rule writesFieldI; simp add: shaderCreateWrites_def write_all)

lemma writes_enableNgg:
  "writesField cfg (\<lambda>t. map_option enableNgg (pNggState t))
     (\<lambda>c. apply_nggDisable (sc_apply c))
     (\<lambda>c. False)"
  by (rule writesFieldI; simp add: shaderCreateWrites_def write_all)

lemma writes_enableFastLaunch:
  "writesField cfg (\<lambda>t. map_option enableFastLaunch (pNggState t))
     (\<lambda>c. LLPC_CLIENT_INTERFACE_MAJOR_VERSION cfg < 45 \<and> apply_nggFasterLaunchRate (sc_apply c))
     (\<lambda>c. True)"
  by (rule writesFieldI; simp add: shaderCreateWrites_def write_all)

lemma writes_enableVertexReuse:
  "writesField cfg (\<lambda>t. map_option enableVertexReuse (pNggState t))
     (\<lambda>c. apply_nggVertexReuse (sc_apply c))
     (\<lambda>c. True)"
  by (rule writesFieldI; simp add: shaderCreateWrites_def write_all)

lemma writes_enableFrustumCulling:
  "writesField cfg (\<lambda>t. map_option enableFrustumCulling (pNggState t))
     (\<lambda>c. apply_nggEnableFrustumCulling (sc_apply c))
     (\<lambda>c. True)"
  by (rule writesFieldI; simp add: shaderCreateWrites_def write_all)

lemma writes_enableBoxFilterCulling:
  "writesField cfg (\<lambda>t. map_option enableBoxFilterCulling (pNggState t))
     (\<lambda>c. apply_nggEnableBoxFilterCulling (sc_apply c))
     (\<lambda>c. True)"
  by (rule writesFieldI; simp add: shaderCreateWrites_def write_all)

lemma writes_enableSphereCulling:
  "writesField cfg (\<lambda>t. map_option enableSphereCulling (pNggState t))
     (\<lambda>c. apply_nggEnableSphereCulling (sc_apply c))
     (\<lambda>c. True)"
  by (rule writesFieldI; simp add: shaderCreateWrites_def write_all)

lemma writes_enableBackfaceCulling:
  "writesField cfg (\<lambda>t. map_option enableBackfaceCulling (pNggState t))
     (\<lambda>c. apply_nggEnableBackfaceCulling (sc_apply c))
     (\<lambda>c. True)"
  by (rule writesFieldI; simp add: shaderCreateWrites_def write_all)

lemma writes_enableSmallPrimFilter:
  "writesField cfg (\<lambda>t. map_option enableSmallPrimFilter (pNggState t))
     (\<lambda>c. apply_nggEnableSmallPrimFilter (sc_apply c))
     (\<lambda>c. True)"
  by (rule writesFieldI; simp add: shaderCreateWrites_def write_all)

lemmas writes_fields =
  writes_vgprLimit writes_sgprLimit writes_maxThreadGroupsPerComputeUnit writes_debugMode
  writes_trapPresent writes_allowReZ writes_disableLoopUnroll writes_useSiScheduler
  writes_reconfigWorkgroupLayout writes_enableLoadScalarizer writes_forceLoopUnrollCount
  writes_disableLicm writes_unrollThreshold writes_fp32DenormalMode writes_waveSize
  writes_wgpMode writes_waveBreakSize writes_enableNgg writes_enableFastLaunch
  writes_enableVertexReuse writes_enableFrustumCulling writes_enableBoxFilterCulling
  writes_enableSphereCulling writes_enableBackfaceCulling writes_enableSmallPrimFilter

subsection \<open>The loop over the entries\<close>

lemma entriesAt_Nil [simp]: "entriesAt profile [] = []"
  by (simp add: entriesAt_def)

lemma entriesAt_Cons:
  "entriesAt profile (i # idxs) =
     (case entryAt profile i of Inl _ \<Rightarrow> [] | Inr e \<Rightarrow> [e]) @ entriesAt profile idxs"
  by (simp add: entriesAt_def)

lemma entriesAt_append:
  "entriesAt profile (xs @ ys) = entriesAt profile xs @ entriesAt profile ys"
  by (simp add: entriesAt_def)

lemma entriesAt_upt:
  "entriesAt profile [0 ..< n] =
     (case pEntries profile of None \<Rightarrow> [] | Some entries \<Rightarrow> take n entries)"
proof (induction n)
  case 0
  then show ?case by (simp split: option.splits)
next
  case (Suc n)
  show ?case
  proof (cases "pEntries profile")
    case None
    with Suc show ?thesis by (simp add: entriesAt_append entriesAt_Cons entryAt_def)
  next
    case (Some entries)
    with Suc show ?thesis
      by (simp add: entriesAt_append entriesAt_Cons entryAt_def take_Suc_conv_app_nth)
  qed
qed

lemma matchingEntries_entriesAt:
  "matchingEntries profile pipelineKey =
     filter (\<lambda>e. ProfilePatternMatchesPipeline (pattern e) pipelineKey)
       (entriesAt profile [0 ..< unat (entryCount profile)])"
  by (simp add: matchingEntries_def entriesAt_upt split: option.splits)

lemma entryAt_in_bounds:
  assumes "entriesInBounds profile" and "i < unat (entryCount profile)"
  shows "\<exists>e. entryAt profile i = Inr e"
proof (cases "pEntries profile")
  case None
  with assms show ?thesis by (simp add: entriesInBounds_def)
next
  case (Some entries)
  with assms show ?thesis by (simp add: entriesInBounds_def entryAt_def)
qed

lemma applyShaderCreate_null_iff:
  assumes "applyShaderCreate cfg create opts = Inr opts'"
  shows "pOptions opts' = None \<longleftrightarrow> pOptions opts = None"
proof (cases "pOptions opts = None")
  case True
  with assms show ?thesis by (simp add: applyShaderCreate_def)
next
  case False
  with assms have rw: "runWrites (shaderCreateWrites cfg create) opts = Inr opts'"
    by (simp add: applyShaderCreate_def)
  have "(pOptions opts' = None) = (pOptions opts = None)"
    by (rule runWrites_keeps [OF rw]) (simp add: shaderCreateWrites_def write_all)
  then show ?thesis .
qed

lemma lastWrite_Nil [simp]: "lastWrite gate val [] old = old"
  by (simp add: lastWrite_def)

lemma lastWrite_Cons:
  "lastWrite gate val (c # cs) old = lastWrite gate val cs (if gate c then Some (val c) else old)"
  by (simp add: lastWrite_def)

lemma lastWrite_append:
  "lastWrite gate val (xs @ ys) old = lastWrite gate val ys (lastWrite gate val xs old)"
  by (simp add: lastWrite_def)

lemma lastWrite_eq:
  "lastWrite gate val cs old =
     (if filter gate cs = [] then old else Some (val (last (filter gate cs))))"
  by (induction cs rule: rev_induct) (auto simp: lastWrite_append lastWrite_Cons)

text \<open>With a null options handle the loop leaves everything as it is.\<close>

lemma shaderCreateLoop_null:
  assumes "pOptions opts = None"
      and "shaderCreateLoop cfg profile pipelineKey shaderStage idxs opts = Inr opts'"
  shows "opts' = opts"
  using assms
  by (induction idxs) (auto simp: applyShaderCreate_def split: sum.splits if_splits)

lemma shaderCreateLoop_null_total:
  assumes "pOptions opts = None"
      and "\<forall>i\<in>set idxs. \<exists>e. entryAt profile i = Inr e"
  shows "shaderCreateLoop cfg profile pipelineKey shaderStage idxs opts = Inr opts"
  using assms
  by (induction idxs) (auto simp: applyShaderCreate_def)

text \<open>
  With an options handle that is not null, a field ends at the value of the last matching entry
  that writes it.
\<close>

lemma shaderCreateLoop_field:
  assumes W: "writesField cfg get gate val"
      and nonnull: "pOptions opts \<noteq> None"
      and run: "shaderCreateLoop cfg profile pipelineKey shaderStage idxs opts = Inr opts'"
  shows "get opts' =
           lastWrite gate val
             (map (stageCreate shaderStage)
                (filter (\<lambda>e. ProfilePatternMatchesPipeline (pattern e) pipelineKey)
                   (entriesAt profile idxs)))
             (get opts)"
  using nonnull run
proof (induction idxs arbitrary: opts)
  case Nil
  then show ?case by simp
next
  case (Cons i idxs)
  from Cons.prems(2) obtain e where e: "entryAt profile i = Inr e"
    by (auto split: sum.splits)
  show ?case
  proof (cases "ProfilePatternMatchesPipeline (pattern e) pipelineKey")
    case True
    with Cons.prems(2) e obtain opts1 where
      step: "applyShaderCreate cfg (stageCreate shaderStage e) opts = Inr opts1" and
      rest: "shaderCreateLoop cfg profile pipelineKey shaderStage idxs opts1 = Inr opts'"
      by (auto simp: stageCreate_def split: sum.splits)
    have nn: "pOptions opts1 \<noteq> None"
      using applyShaderCreate_null_iff [OF step] Cons.prems(1) by simp
    have "get opts1 = (if gate (stageCreate shaderStage e)
                       then Some (val (stageCreate shaderStage e)) else get opts)"
      using W step Cons.prems(1) unfolding writesField_def by simp
    with Cons.IH [OF nn rest] True e show ?thesis
      by (simp add: entriesAt_Cons lastWrite_Cons)
  next
    case False
    with Cons.prems(2) e have
      rest: "shaderCreateLoop cfg profile pipelineKey shaderStage idxs opts = Inr opts'"
      by simp
    with Cons.IH [OF Cons.prems(1) rest] False e show ?thesis
      by (simp add: entriesAt_Cons)
  qed
qed

lemma ApplyProfile_field:
  assumes W: "writesField cfg get gate val"
      and run: "ApplyProfileToShaderCreateInfo cfg profile pipelineKey shaderStage opts = Inr opts'"
  shows "get opts' =
           (if pOptions opts = None then get opts
            else lastWrite gate val
                   (map (stageCreate shaderStage) (matchingEntries profile pipelineKey)) (get opts))"
proof (cases "pOptions opts = None")
  case True
  with run have "opts' = opts"
    using shaderCreateLoop_null [OF True] by (simp add: ApplyProfileToShaderCreateInfo_def)
  with True show ?thesis by simp
next
  case False
  from run have loop: "shaderCreateLoop cfg profile pipelineKey shaderStage
                         [0 ..< unat (entryCount profile)] opts = Inr opts'"
    by (simp add: ApplyProfileToShaderCreateInfo_def)
  have "get opts' =
          lastWrite gate val
            (map (stageCreate shaderStage)
               (filter (\<lambda>e. ProfilePatternMatchesPipeline (pattern e) pipelineKey)
                  (entriesAt profile [0 ..< unat (entryCount profile)])))
            (get opts)"
    by (rule shaderCreateLoop_field [OF W False loop])
  with False show ?thesis
    by (auto simp: matchingEntries_entriesAt)
qed


lemma ApplyProfile_gatedField:
  assumes W: "writesField cfg get gate val"
      and run: "ApplyProfileToShaderCreateInfo cfg profile pipelineKey shaderStage opts = Inr opts'"
  shows "gatedField get gate val profile pipelineKey shaderStage opts opts'"
proof -
  let ?creates = "map (stageCreate shaderStage) (matchingEntries profile pipelineKey)"
  have result: "get opts' =
      (if pOptions opts = None \<or> filter gate ?creates = [] then get opts
       else Some (val (last (filter gate ?creates))))"
    using ApplyProfile_field [OF W run] by (simp add: lastWrite_eq)
  have unset: "filter gate ?creates = []"
    if "\<forall>e\<in>set (matchingEntries profile pipelineKey). \<not> gate (stageCreate shaderStage e)"
    using that by (simp add: filter_empty_conv)
  show ?thesis
    unfolding gatedField_def setters_def
    using result unset by auto
qed

text \<open>
  C1. The property as it holds of the code. Let \<^verbatim>\<open>ApplyProfileToShaderCreateInfo\<close> complete.
  A field that the code writes under an apply bit (the VGPR and SGPR limits, the thread-group
  limit, debug mode, trap present, ReZ, loop unrolling, the denormal mode, the wave size, WGP
  mode, the wave break size and the NGG switches) is unchanged when that bit is unset in every
  matching entry, whatever the payload. The six fields \<^verbatim>\<open>useSiScheduler\<close>,
  \<^verbatim>\<open>reconfigWorkgroupLayout\<close>, \<^verbatim>\<open>enableLoadScalarizer\<close>, \<^verbatim>\<open>forceLoopUnrollCount\<close>,
  \<^verbatim>\<open>disableLicm\<close> and \<^verbatim>\<open>unrollThreshold\<close> are written under their payload, with no apply bit
  consulted: they are unchanged when the payload is false or zero in every matching entry, and
  a true or nonzero payload of a matching entry is written. For each of the 25 fields, when
  the options handle is not null and the gate of the field holds of some matching entry, the
  field ends at the value written for the last such entry; with a null handle nothing changes.
\<close>

theorem unset_gate_keeps_field:
  assumes "ApplyProfileToShaderCreateInfo cfg profile pipelineKey shaderStage options = Inr options'"
  shows "gatedField (\<lambda>t. map_option vgprLimit (pOptions t))
           (\<lambda>c. apply_vgprLimit (sc_apply c))
           (\<lambda>c. tune_vgprLimit (tuningOptions c))
           profile pipelineKey shaderStage options options' \<and>
         gatedField (\<lambda>t. map_option sgprLimit (pOptions t))
           (\<lambda>c. apply_sgprLimit (sc_apply c))
           (\<lambda>c. tune_sgprLimit (tuningOptions c))
           profile pipelineKey shaderStage options options' \<and>
         gatedField (\<lambda>t. map_option maxThreadGroupsPerComputeUnit (pOptions t))
           (\<lambda>c. apply_maxThreadGroupsPerComputeUnit (sc_apply c))
           (\<lambda>c. tune_maxThreadGroupsPerComputeUnit (tuningOptions c))
           profile pipelineKey shaderStage options options' \<and>
         gatedField (\<lambda>t. map_option debugMode (pOptions t))
           (\<lambda>c. apply_debugMode (sc_apply c))
           (\<lambda>c. True)
           profile pipelineKey shaderStage options options' \<and>
         gatedField (\<lambda>t. map_option trapPresent (pOptions t))
           (\<lambda>c. apply_trapPresent (sc_apply c))
           (\<lambda>c. True)
           profile pipelineKey shaderStage options options' \<and>
         gatedField (\<lambda>t. map_option allowReZ (pOptions t))
           (\<lambda>c. apply_allowReZ (sc_apply c))
           (\<lambda>c. True)
           profile pipelineKey shaderStage options options' \<and>
         gatedField (\<lambda>t. map_option disableLoopUnroll (pOptions t))
           (\<lambda>c. apply_disableLoopUnrolls (sc_apply c))
           (\<lambda>c. True)
           profile pipelineKey shaderStage options options' \<and>
         gatedField (\<lambda>t. map_option useSiScheduler (pOptions t))
           (\<lambda>c. tune_useSiScheduler (tuningOptions c))
           (\<lambda>c. True)
           profile pipelineKey shaderStage options options' \<and>
         gatedField (\<lambda>t. map_option reconfigWorkgroupLayout (pPipelineOptions t))
           (\<lambda>c. tune_reconfigWorkgroupLayout (tuningOptions c))
           (\<lambda>c. True)
           profile pipelineKey shaderStage options options' \<and>
         gatedField (\<lambda>t. map_option enableLoadScalarizer (pOptions t))
           (\<lambda>c. tune_enableLoadScalarizer (tuningOptions c))
           (\<lambda>c. True)
           profile pipelineKey shaderStage options options' \<and>
         gatedField (\<lambda>t. map_option forceLoopUnrollCount (pOptions t))
           (\<lambda>c. tune_forceLoopUnrollCount (tuningOptions c) \<noteq> 0)
           (\<lambda>c. tune_forceLoopUnrollCount (tuningOptions c))
           profile pipelineKey shaderStage options options' \<and>
         gatedField (\<lambda>t. map_option disableLicm (pOptions t))
           (\<lambda>c. tune_disableLicm (tuningOptions c))
           (\<lambda>c. True)
           profile pipelineKey shaderStage options options' \<and>
         gatedField (\<lambda>t. map_option unrollThreshold (pOptions t))
           (\<lambda>c. tune_unrollThreshold (tuningOptions c) \<noteq> 0)
           (\<lambda>c. tune_unrollThreshold (tuningOptions c))
           profile pipelineKey shaderStage options options' \<and>
         gatedField (\<lambda>t. map_option fp32DenormalMode (pOptions t))
           (\<lambda>c. apply_fp32DenormalMode (sc_apply c))
           (\<lambda>c. tune_fp32DenormalMode (tuningOptions c))
           profile pipelineKey shaderStage options options' \<and>
         gatedField (\<lambda>t. map_option waveSize (pOptions t))
           (\<lambda>c. apply_waveSize (sc_apply c))
           (\<lambda>c. tune_waveSize (tuningOptions c))
           profile pipelineKey shaderStage options options' \<and>
         gatedField (\<lambda>t. map_option wgpMode (pOptions t))
           (\<lambda>c. apply_wgpMode (sc_apply c))
           (\<lambda>c. True)
           profile pipelineKey shaderStage options options' \<and>
         gatedField (\<lambda>t. map_option waveBreakSize (pOptions t))
           (\<lambda>c. apply_waveBreakSize (sc_apply c))
           (\<lambda>c. tune_waveBreakSize (tuningOptions c))
           profile pipelineKey shaderStage options options' \<and>
         gatedField (\<lambda>t. map_option enableNgg (pNggState t))
           (\<lambda>c. apply_nggDisable (sc_apply c))
           (\<lambda>c. False)
           profile pipelineKey shaderStage options options' \<and>
         gatedField (\<lambda>t. map_option enableFastLaunch (pNggState t))
           (\<lambda>c. LLPC_CLIENT_INTERFACE_MAJOR_VERSION cfg < 45 \<and> apply_nggFasterLaunchRate (sc_apply c))
           (\<lambda>c. True)
           profile pipelineKey shaderStage options options' \<and>
         gatedField (\<lambda>t. map_option enableVertexReuse (pNggState t))
           (\<lambda>c. apply_nggVertexReuse (sc_apply c))
           (\<lambda>c. True)
           profile pipelineKey shaderStage options options' \<and>
         gatedField (\<lambda>t. map_option enableFrustumCulling (pNggState t))
           (\<lambda>c. apply_nggEnableFrustumCulling (sc_apply c))
           (\<lambda>c. True)
           profile pipelineKey shaderStage options options' \<and>
         gatedField (\<lambda>t. map_option enableBoxFilterCulling (pNggState t))
           (\<lambda>c. apply_nggEnableBoxFilterCulling (sc_apply c))
           (\<lambda>c. True)
           profile pipelineKey shaderStage options options' \<and>
         gatedField (\<lambda>t. map_option enableSphereCulling (pNggState t))
           (\<lambda>c. apply_nggEnableSphereCulling (sc_apply c))
           (\<lambda>c. True)
           profile pipelineKey shaderStage options options' \<and>
         gatedField (\<lambda>t. map_option enableBackfaceCulling (pNggState t))
           (\<lambda>c. apply_nggEnableBackfaceCulling (sc_apply c))
           (\<lambda>c. True)
           profile pipelineKey shaderStage options options' \<and>
         gatedField (\<lambda>t. map_option enableSmallPrimFilter (pNggState t))
           (\<lambda>c. apply_nggEnableSmallPrimFilter (sc_apply c))
           (\<lambda>c. True)
           profile pipelineKey shaderStage options options'"
  by (intro conjI; rule ApplyProfile_gatedField [OF _ assms]; rule writes_fields)

theorem unset_gate_keeps_field_witness:
  "ApplyProfileToShaderCreateInfo exampleMacros (singleProfile (entryWith mixedCreate))
     fragmentKey ShaderStageFragment defaultOptions
     = Inr (defaultOptions\<lparr>pOptions :=
              Some (defaultShaderOptions\<lparr>sgprLimit := 100, unrollThreshold := 7\<rparr>)\<rparr>) \<and>
   pOptions defaultOptions \<noteq> None \<and>
   matchingEntries (singleProfile (entryWith mixedCreate)) fragmentKey = [entryWith mixedCreate] \<and>
   stageCreate ShaderStageFragment (entryWith mixedCreate) = mixedCreate \<and>
   \<not> apply_vgprLimit (sc_apply mixedCreate) \<and>
   tune_vgprLimit (tuningOptions mixedCreate) = 24 \<and>
   tune_unrollThreshold (tuningOptions mixedCreate) = 7 \<and>
   map_option vgprLimit
     (pOptions (defaultOptions\<lparr>pOptions :=
        Some (defaultShaderOptions\<lparr>sgprLimit := 100, unrollThreshold := 7\<rparr>)\<rparr>))
     = map_option vgprLimit (pOptions defaultOptions) \<and>
   map_option unrollThreshold
     (pOptions (defaultOptions\<lparr>pOptions :=
        Some (defaultShaderOptions\<lparr>sgprLimit := 100, unrollThreshold := 7\<rparr>)\<rparr>))
     = Some (tune_unrollThreshold (tuningOptions mixedCreate))"
proof -
  let ?profile = "singleProfile (entryWith mixedCreate)"
  let ?result = "defaultOptions\<lparr>pOptions :=
                   Some (defaultShaderOptions\<lparr>sgprLimit := 100, unrollThreshold := 7\<rparr>)\<rparr>"
  have run: "ApplyProfileToShaderCreateInfo exampleMacros ?profile fragmentKey ShaderStageFragment
               defaultOptions = Inr ?result"
    by (simp add: ApplyProfileToShaderCreateInfo_def singleProfile_def entryWith_def entryAt_def
          ProfilePatternMatchesPipeline_def alwaysPattern_def applyShaderCreate_def
          shaderCreateWrites_def mixedCreate_def zeroApply_def zeroTuningOptions_def
          defaultOptions_def onOptions_def zeroAction_def zeroShaderAction_def)
  have nn: "pOptions defaultOptions \<noteq> None"
    by (simp add: defaultOptions_def)
  have matching: "matchingEntries ?profile fragmentKey = [entryWith mixedCreate]"
    by (simp add: matchingEntries_def singleProfile_def entryWith_def
          ProfilePatternMatchesPipeline_def alwaysPattern_def)
  have create: "stageCreate ShaderStageFragment (entryWith mixedCreate) = mixedCreate"
    by (simp add: entryWith_def stageCreate_def zeroAction_def zeroShaderAction_def)
  have unset: "\<not> apply_vgprLimit (sc_apply mixedCreate)"
    by (simp add: mixedCreate_def zeroApply_def)
  have payload: "tune_vgprLimit (tuningOptions mixedCreate) = 24"
    by (simp add: mixedCreate_def zeroTuningOptions_def)
  have threshold: "tune_unrollThreshold (tuningOptions mixedCreate) = 7"
    by (simp add: mixedCreate_def zeroTuningOptions_def)
  note all = unset_gate_keeps_field [OF run]
  have "gatedField (\<lambda>t. map_option vgprLimit (pOptions t)) (\<lambda>c. apply_vgprLimit (sc_apply c))
          (\<lambda>c. tune_vgprLimit (tuningOptions c))
          ?profile fragmentKey ShaderStageFragment defaultOptions ?result"
    using all by (rule conjunct1)
  with matching create unset
  have kept: "map_option vgprLimit (pOptions ?result) = map_option vgprLimit (pOptions defaultOptions)"
    by (simp add: gatedField_def)
  have "gatedField (\<lambda>t. map_option unrollThreshold (pOptions t))
          (\<lambda>c. tune_unrollThreshold (tuningOptions c) \<noteq> 0)
          (\<lambda>c. tune_unrollThreshold (tuningOptions c))
          ?profile fragmentKey ShaderStageFragment defaultOptions ?result"
    using all by blast
  with matching create threshold nn
  have written: "map_option unrollThreshold (pOptions ?result)
                   = Some (tune_unrollThreshold (tuningOptions mixedCreate))"
    by (simp add: gatedField_def setters_def)
  from run nn matching create unset payload threshold kept written
  show ?thesis by (intro conjI)
qed

text \<open>
  C1 as the specification states it fails: an entry that matches, with no apply bit set and a
  loop-unroll count of 5 as payload, changes \<^verbatim>\<open>forceLoopUnrollCount\<close> from 0 to 5.
\<close>

theorem unset_apply_bit_counterexample:
  "ProfilePatternMatchesPipeline (pattern (entryWith unrollCreate)) fragmentKey \<and>
   sc_apply (stageCreate ShaderStageFragment (entryWith unrollCreate)) = zeroApply \<and>
   map_option forceLoopUnrollCount (pOptions defaultOptions) = Some 0 \<and>
   ApplyProfileToShaderCreateInfo exampleMacros (singleProfile (entryWith unrollCreate))
     fragmentKey ShaderStageFragment defaultOptions
     = Inr (defaultOptions\<lparr>pOptions := Some (defaultShaderOptions\<lparr>forceLoopUnrollCount := 5\<rparr>)\<rparr>)"
  by (simp add: ApplyProfileToShaderCreateInfo_def singleProfile_def entryWith_def entryAt_def
        ProfilePatternMatchesPipeline_def alwaysPattern_def applyShaderCreate_def
        shaderCreateWrites_def unrollCreate_def zeroApply_def zeroTuningOptions_def
        defaultOptions_def defaultShaderOptions_def onOptions_def zeroAction_def
        zeroShaderAction_def stageCreate_def)

text \<open>
  C10. With a null options handle \<^verbatim>\<open>ApplyProfileToShaderCreateInfo\<close> writes nothing: whenever
  it completes, the targets are as they were, and it completes without a fault for every
  profile whose array holds the entries it counts.
\<close>

theorem null_options_is_noop:
  assumes "pOptions options = None"
  shows "(\<forall>options'. ApplyProfileToShaderCreateInfo cfg profile pipelineKey shaderStage options
                        = Inr options' \<longrightarrow> options' = options) \<and>
         (entriesInBounds profile \<longrightarrow>
            ApplyProfileToShaderCreateInfo cfg profile pipelineKey shaderStage options = Inr options)"
proof (intro conjI allI impI)
  fix options'
  assume "ApplyProfileToShaderCreateInfo cfg profile pipelineKey shaderStage options = Inr options'"
  then show "options' = options"
    using shaderCreateLoop_null [OF assms] by (simp add: ApplyProfileToShaderCreateInfo_def)
next
  assume "entriesInBounds profile"
  then have "\<forall>i\<in>set [0 ..< unat (entryCount profile)]. \<exists>e. entryAt profile i = Inr e"
    using entryAt_in_bounds by simp
  then show "ApplyProfileToShaderCreateInfo cfg profile pipelineKey shaderStage options = Inr options"
    unfolding ApplyProfileToShaderCreateInfo_def
    by (rule shaderCreateLoop_null_total [OF assms])
qed

theorem null_options_is_noop_witness:
  "pOptions nullOptions = None \<and>
   entriesInBounds (singleProfile (entryWith (vgprCreate 64))) \<and>
   ProfilePatternMatchesPipeline (pattern (entryWith (vgprCreate 64))) fragmentKey \<and>
   ApplyProfileToShaderCreateInfo exampleMacros (singleProfile (entryWith (vgprCreate 64)))
     fragmentKey ShaderStageFragment nullOptions = Inr nullOptions"
proof -
  have h: "pOptions nullOptions = None"
    by (simp add: nullOptions_def)
  have b: "entriesInBounds (singleProfile (entryWith (vgprCreate 64)))"
    by (simp add: entriesInBounds_def singleProfile_def)
  have m: "ProfilePatternMatchesPipeline (pattern (entryWith (vgprCreate 64))) fragmentKey"
    by (simp add: ProfilePatternMatchesPipeline_def entryWith_def alwaysPattern_def)
  show ?thesis
    using h b m
      null_options_is_noop [OF h, of exampleMacros "singleProfile (entryWith (vgprCreate 64))"
        fragmentKey ShaderStageFragment]
    by blast
qed

subsection \<open>Completion\<close>

text \<open>
  With three handles that are not null and a profile whose array holds the entries it counts,
  the shader-stage path completes without a fault.
\<close>

lemma runWrites_total:
  assumes "\<forall>(c, w)\<in>set ws. \<forall>t. ok t \<longrightarrow> (\<exists>t'. w t = Inr t' \<and> ok t')"
      and "ok s"
  shows "\<exists>s'. runWrites ws s = Inr s' \<and> ok s'"
  using assms
proof (induction ws arbitrary: s)
  case Nil
  then show ?case by simp
next
  case (Cons cw ws)
  obtain c w where cw: "cw = (c, w)" by (cases cw)
  from Cons.prems cw obtain s1 where s1: "w s = Inr s1" "ok s1"
    by fastforce
  have rest: "\<forall>(c, w)\<in>set ws. \<forall>t. ok t \<longrightarrow> (\<exists>t'. w t = Inr t' \<and> ok t')"
    using Cons.prems(1) by simp
  show ?case
  proof (cases c)
    case True
    with Cons.IH [OF rest s1(2)] s1(1) cw show ?thesis by simp
  next
    case False
    with Cons.IH [OF rest Cons.prems(2)] cw show ?thesis by simp
  qed
qed

lemma write_total:
  "\<forall>t. pOptions t \<noteq> None \<and> pPipelineOptions t \<noteq> None \<and> pNggState t \<noteq> None \<longrightarrow>
     (\<exists>t'. onOptions f t = Inr t' \<and>
          pOptions t' \<noteq> None \<and> pPipelineOptions t' \<noteq> None \<and> pNggState t' \<noteq> None)"
  "\<forall>t. pOptions t \<noteq> None \<and> pPipelineOptions t \<noteq> None \<and> pNggState t \<noteq> None \<longrightarrow>
     (\<exists>t'. onPipelineOptions g t = Inr t' \<and>
          pOptions t' \<noteq> None \<and> pPipelineOptions t' \<noteq> None \<and> pNggState t' \<noteq> None)"
  "\<forall>t. pOptions t \<noteq> None \<and> pPipelineOptions t \<noteq> None \<and> pNggState t \<noteq> None \<longrightarrow>
     (\<exists>t'. onNggState h t = Inr t' \<and>
          pOptions t' \<noteq> None \<and> pPipelineOptions t' \<noteq> None \<and> pNggState t' \<noteq> None)"
  by (auto simp: onOptions_def onPipelineOptions_def onNggState_def)

lemma applyShaderCreate_total:
  assumes "pOptions t \<noteq> None \<and> pPipelineOptions t \<noteq> None \<and> pNggState t \<noteq> None"
  shows "\<exists>t'. applyShaderCreate cfg create t = Inr t' \<and>
              pOptions t' \<noteq> None \<and> pPipelineOptions t' \<noteq> None \<and> pNggState t' \<noteq> None"
proof -
  have "\<exists>t'. runWrites (shaderCreateWrites cfg create) t = Inr t' \<and>
              pOptions t' \<noteq> None \<and> pPipelineOptions t' \<noteq> None \<and> pNggState t' \<noteq> None"
  proof (rule runWrites_total [where ok = "\<lambda>t. pOptions t \<noteq> None \<and> pPipelineOptions t \<noteq> None \<and>
                                               pNggState t \<noteq> None"])
    show "\<forall>(c, w)\<in>set (shaderCreateWrites cfg create).
            \<forall>t. pOptions t \<noteq> None \<and> pPipelineOptions t \<noteq> None \<and> pNggState t \<noteq> None \<longrightarrow>
              (\<exists>t'. w t = Inr t' \<and>
                 pOptions t' \<noteq> None \<and> pPipelineOptions t' \<noteq> None \<and> pNggState t' \<noteq> None)"
      unfolding shaderCreateWrites_def list.set ball_simps prod.case
      by (intro conjI write_total TrueI)
    show "pOptions t \<noteq> None \<and> pPipelineOptions t \<noteq> None \<and> pNggState t \<noteq> None"
      by (rule assms)
  qed
  with assms show ?thesis by (simp add: applyShaderCreate_def)
qed

lemma shaderCreateLoop_total:
  assumes "pOptions t \<noteq> None \<and> pPipelineOptions t \<noteq> None \<and> pNggState t \<noteq> None"
      and "\<forall>i\<in>set idxs. \<exists>e. entryAt profile i = Inr e"
  shows "\<exists>t'. shaderCreateLoop cfg profile pipelineKey shaderStage idxs t = Inr t' \<and>
              pOptions t' \<noteq> None \<and> pPipelineOptions t' \<noteq> None \<and> pNggState t' \<noteq> None"
  using assms
proof (induction idxs arbitrary: t)
  case Nil
  then show ?case by simp
next
  case (Cons i idxs)
  from Cons.prems(2) obtain e where e: "entryAt profile i = Inr e" by auto
  have rest: "\<forall>i\<in>set idxs. \<exists>e. entryAt profile i = Inr e"
    using Cons.prems(2) by simp
  show ?case
  proof (cases "ProfilePatternMatchesPipeline (pattern e) pipelineKey")
    case True
    from applyShaderCreate_total [OF Cons.prems(1)] obtain t1 where
      t1: "applyShaderCreate cfg (shaderCreate (action_shaders (action e) shaderStage)) t = Inr t1"
          "pOptions t1 \<noteq> None \<and> pPipelineOptions t1 \<noteq> None \<and> pNggState t1 \<noteq> None"
      by blast
    with Cons.IH [OF t1(2) rest] e True show ?thesis by simp
  next
    case False
    with Cons.IH [OF Cons.prems(1) rest] e show ?thesis by simp
  qed
qed

lemma ApplyProfile_total:
  assumes "pOptions t \<noteq> None \<and> pPipelineOptions t \<noteq> None \<and> pNggState t \<noteq> None"
      and "entriesInBounds profile"
  shows "\<exists>t'. ApplyProfileToShaderCreateInfo cfg profile pipelineKey shaderStage t = Inr t' \<and>
              pOptions t' \<noteq> None \<and> pPipelineOptions t' \<noteq> None \<and> pNggState t' \<noteq> None"
proof -
  from assms(2) have "\<forall>i\<in>set [0 ..< unat (entryCount profile)]. \<exists>e. entryAt profile i = Inr e"
    using entryAt_in_bounds by simp
  then show ?thesis
    unfolding ApplyProfileToShaderCreateInfo_def by (rule shaderCreateLoop_total [OF assms(1)])
qed

lemma Override_total:
  assumes "pOptions t \<noteq> None \<and> pPipelineOptions t \<noteq> None \<and> pNggState t \<noteq> None"
      and "entriesInBounds (m_appProfile this)"
      and "entriesInBounds (m_tuningProfile this)"
      and "ICD_RUNTIME_APP_PROFILE cfg \<longrightarrow> entriesInBounds (m_runtimeProfile this)"
  shows "\<exists>t'. OverrideShaderCreateInfo cfg this pipelineKey shaderStage t = Inr t'"
proof -
  from ApplyProfile_total [OF assms(1,2)] obtain t1 where
    t1: "ApplyProfileToShaderCreateInfo cfg (m_appProfile this) pipelineKey shaderStage t = Inr t1"
        "pOptions t1 \<noteq> None \<and> pPipelineOptions t1 \<noteq> None \<and> pNggState t1 \<noteq> None"
    by blast
  from ApplyProfile_total [OF t1(2) assms(3)] obtain t2 where
    t2: "ApplyProfileToShaderCreateInfo cfg (m_tuningProfile this) pipelineKey shaderStage t1
           = Inr t2"
        "pOptions t2 \<noteq> None \<and> pPipelineOptions t2 \<noteq> None \<and> pNggState t2 \<noteq> None"
    by blast
  show ?thesis
  proof (cases "ICD_RUNTIME_APP_PROFILE cfg")
    case True
    with assms(4) have "entriesInBounds (m_runtimeProfile this)" by simp
    from ApplyProfile_total [OF t2(2) this] obtain t3 where
      "ApplyProfileToShaderCreateInfo cfg (m_runtimeProfile this) pipelineKey shaderStage t2
         = Inr t3"
      by blast
    with t1(1) t2(1) True show ?thesis by (simp add: OverrideShaderCreateInfo_def)
  next
    case False
    with t1(1) t2(1) show ?thesis by (simp add: OverrideShaderCreateInfo_def)
  qed
qed

subsection \<open>The three rule sets in sequence\<close>







section \<open>Properties of the compute path\<close>

lemma PrintProfileEntryMatch_cases:
  "PrintProfileEntryMatch cfg profileAddress entryIndex pipelineKey =
     (if profileAddress = AtAppProfile \<or>
         (ICD_RUNTIME_APP_PROFILE cfg \<and> profileAddress = AtRuntimeProfile)
      then Inr () else Inl AssertFailed)"
  by (simp add: PrintProfileEntryMatch_def)

lemma computeLoop_id:
  assumes "computeLoop cfg this profileAddress profile pipelineKey idxs info = Inr info'"
  shows "info' = info"
  using assms
  by (induction idxs)
     (auto simp: ApplyProfileToDynamicComputeShaderInfo_def Let_def
           split: sum.splits if_splits)

text \<open>
  On a profile whose entries are all in range, the loop ends in the failed assertion exactly
  when the print is compiled in and switched on, the profile is one that
  \<^verbatim>\<open>PrintProfileEntryMatch\<close> does not know, and some entry matches.
\<close>

lemma computeLoop_result:
  assumes "\<forall>i\<in>set idxs. \<exists>e. entryAt profile i = Inr e"
  shows "computeLoop cfg this profileAddress profile pipelineKey idxs info =
           (if PAL_ENABLE_PRINTS_ASSERTS cfg \<and>
               pipelineProfileDbgPrintProfileMatch (settings this) \<and>
               \<not> (profileAddress = AtAppProfile \<or>
                  (ICD_RUNTIME_APP_PROFILE cfg \<and> profileAddress = AtRuntimeProfile)) \<and>
               filter (\<lambda>e. ProfilePatternMatchesPipeline (pattern e) pipelineKey)
                 (entriesAt profile idxs) \<noteq> []
            then Inl AssertFailed else Inr info)"
  using assms
proof (induction idxs)
  case Nil
  then show ?case by simp
next
  case (Cons i idxs)
  from Cons.prems obtain e where e: "entryAt profile i = Inr e" by auto
  have rest: "\<forall>i\<in>set idxs. \<exists>e. entryAt profile i = Inr e"
    using Cons.prems by simp
  note IH = Cons.IH [OF rest]
  show ?case
  proof (cases "ProfilePatternMatchesPipeline (pattern e) pipelineKey")
    case False
    with IH e show ?thesis by (simp add: entriesAt_Cons)
  next
    case match: True
    show ?thesis
    proof (cases "PAL_ENABLE_PRINTS_ASSERTS cfg \<and>
                  pipelineProfileDbgPrintProfileMatch (settings this)")
      case False
      with IH e match show ?thesis
        by (auto simp: entriesAt_Cons ApplyProfileToDynamicComputeShaderInfo_def)
    next
      case print: True
      show ?thesis
      proof (cases "profileAddress = AtAppProfile \<or>
                    (ICD_RUNTIME_APP_PROFILE cfg \<and> profileAddress = AtRuntimeProfile)")
        case True
        then have "PrintProfileEntryMatch cfg profileAddress i pipelineKey = Inr ()"
          by (simp add: PrintProfileEntryMatch_cases)
        with IH e match print True show ?thesis
          by (auto simp: entriesAt_Cons ApplyProfileToDynamicComputeShaderInfo_def)
      next
        case False
        then have "PrintProfileEntryMatch cfg profileAddress i pipelineKey = Inl AssertFailed"
          by (simp add: PrintProfileEntryMatch_cases)
        with e match print False show ?thesis
          by (auto simp: entriesAt_Cons ApplyProfileToDynamicComputeShaderInfo_def)
      qed
    qed
  qed
qed

lemma ApplyCompute_id:
  assumes "ApplyProfileToComputePipelineCreateInfo cfg this profileAddress profile pipelineKey info
             = Inr info'"
  shows "info' = info"
  using assms computeLoop_id by (simp add: ApplyProfileToComputePipelineCreateInfo_def)

lemma ApplyCompute_result:
  assumes "entriesInBounds profile"
  shows "ApplyProfileToComputePipelineCreateInfo cfg this profileAddress profile pipelineKey info =
           (if PAL_ENABLE_PRINTS_ASSERTS cfg \<and>
               pipelineProfileDbgPrintProfileMatch (settings this) \<and>
               \<not> (profileAddress = AtAppProfile \<or>
                  (ICD_RUNTIME_APP_PROFILE cfg \<and> profileAddress = AtRuntimeProfile)) \<and>
               matchingEntries profile pipelineKey \<noteq> []
            then Inl AssertFailed else Inr info)"
proof -
  from assms have "\<forall>i\<in>set [0 ..< unat (entryCount profile)]. \<exists>e. entryAt profile i = Inr e"
    using entryAt_in_bounds by simp
  then show ?thesis
    unfolding ApplyProfileToComputePipelineCreateInfo_def matchingEntries_entriesAt
    by (rule computeLoop_result)
qed

text \<open>
  C3. \<^verbatim>\<open>ApplyProfileToDynamicComputeShaderInfo\<close> returns its target as it was, and so does
  \<^verbatim>\<open>OverrideComputePipelineCreateInfo\<close>, for every optimizer, key and target: whenever it
  completes the target is unchanged. When the array of each profile it walks holds the entries
  the profile counts, it completes with the target unchanged, except in a build with
  \<^verbatim>\<open>PAL_ENABLE_PRINTS_ASSERTS\<close> with the diagnostic print switched on and a matching entry in
  the tuning profile, where the print ends in a failed assertion and no target is returned.
\<close>

theorem compute_override_changes_nothing:
  "ApplyProfileToDynamicComputeShaderInfo act info = info \<and>
   (\<forall>info'. OverrideComputePipelineCreateInfo cfg this pipelineKey info = Inr info'
              \<longrightarrow> info' = info) \<and>
   (entriesInBounds (m_appProfile this) \<and> entriesInBounds (m_tuningProfile this) \<and>
    (ICD_RUNTIME_APP_PROFILE cfg \<longrightarrow> entriesInBounds (m_runtimeProfile this))
      \<longrightarrow> OverrideComputePipelineCreateInfo cfg this pipelineKey info =
            (if PAL_ENABLE_PRINTS_ASSERTS cfg \<and>
                pipelineProfileDbgPrintProfileMatch (settings this) \<and>
                matchingEntries (m_tuningProfile this) pipelineKey \<noteq> []
             then Inl AssertFailed else Inr info))"
proof (intro conjI allI impI)
  show "ApplyProfileToDynamicComputeShaderInfo act info = info"
    by (simp add: ApplyProfileToDynamicComputeShaderInfo_def)
next
  fix info'
  assume "OverrideComputePipelineCreateInfo cfg this pipelineKey info = Inr info'"
  then obtain info1 info2 where
    a1: "ApplyProfileToComputePipelineCreateInfo cfg this AtAppProfile (m_appProfile this)
           pipelineKey info = Inr info1" and
    a2: "ApplyProfileToComputePipelineCreateInfo cfg this AtTuningProfile (m_tuningProfile this)
           pipelineKey info1 = Inr info2" and
    a3: "if ICD_RUNTIME_APP_PROFILE cfg
         then ApplyProfileToComputePipelineCreateInfo cfg this AtRuntimeProfile
                (m_runtimeProfile this) pipelineKey info2 = Inr info'
         else info' = info2"
    by (auto simp: OverrideComputePipelineCreateInfo_def split: sum.splits if_splits)
  have "info1 = info" by (rule ApplyCompute_id [OF a1])
  moreover have "info2 = info1" by (rule ApplyCompute_id [OF a2])
  moreover have "info' = info2"
  proof (cases "ICD_RUNTIME_APP_PROFILE cfg")
    case True
    with a3 show ?thesis using ApplyCompute_id by simp
  next
    case False
    with a3 show ?thesis by simp
  qed
  ultimately show "info' = info" by simp
next
  assume bounds: "entriesInBounds (m_appProfile this) \<and> entriesInBounds (m_tuningProfile this) \<and>
          (ICD_RUNTIME_APP_PROFILE cfg \<longrightarrow> entriesInBounds (m_runtimeProfile this))"
  have app: "ApplyProfileToComputePipelineCreateInfo cfg this AtAppProfile (m_appProfile this)
               pipelineKey info = Inr info"
    using bounds by (simp add: ApplyCompute_result)
  have tuning: "ApplyProfileToComputePipelineCreateInfo cfg this AtTuningProfile
                  (m_tuningProfile this) pipelineKey info =
                  (if PAL_ENABLE_PRINTS_ASSERTS cfg \<and>
                      pipelineProfileDbgPrintProfileMatch (settings this) \<and>
                      matchingEntries (m_tuningProfile this) pipelineKey \<noteq> []
                   then Inl AssertFailed else Inr info)"
    using bounds by (simp add: ApplyCompute_result)
  have runtime: "ApplyProfileToComputePipelineCreateInfo cfg this AtRuntimeProfile
                   (m_runtimeProfile this) pipelineKey info = Inr info"
    if "ICD_RUNTIME_APP_PROFILE cfg"
    using bounds that by (simp add: ApplyCompute_result)
  show "OverrideComputePipelineCreateInfo cfg this pipelineKey info =
          (if PAL_ENABLE_PRINTS_ASSERTS cfg \<and>
              pipelineProfileDbgPrintProfileMatch (settings this) \<and>
              matchingEntries (m_tuningProfile this) pipelineKey \<noteq> []
           then Inl AssertFailed else Inr info)"
    using app tuning runtime by (simp add: OverrideComputePipelineCreateInfo_def)
qed

theorem compute_override_changes_nothing_witness:
  "entriesInBounds (m_appProfile exampleOptimizer) \<and>
   entriesInBounds (m_tuningProfile exampleOptimizer) \<and>
   entriesInBounds (m_runtimeProfile exampleOptimizer) \<and>
   PAL_ENABLE_PRINTS_ASSERTS exampleMacros \<and>
   \<not> pipelineProfileDbgPrintProfileMatch (settings exampleOptimizer) \<and>
   pipelineProfileDbgPrintProfileMatch (settings printingOptimizer) \<and>
   matchingEntries (m_tuningProfile exampleOptimizer) fragmentKey = [entryWith (vgprCreate 64)] \<and>
   OverrideComputePipelineCreateInfo exampleMacros exampleOptimizer fragmentKey (10 :: u32, 2 :: u32)
     = Inr (10, 2) \<and>
   OverrideComputePipelineCreateInfo exampleMacros printingOptimizer fragmentKey
     (10 :: u32, 2 :: u32) = Inl AssertFailed"
proof -
  have b: "entriesInBounds (m_appProfile exampleOptimizer)"
          "entriesInBounds (m_tuningProfile exampleOptimizer)"
          "entriesInBounds (m_runtimeProfile exampleOptimizer)"
    by (simp_all add: entriesInBounds_def exampleOptimizer_def singleProfile_def emptyProfile_def)
  have b': "entriesInBounds (m_appProfile printingOptimizer)"
           "entriesInBounds (m_tuningProfile printingOptimizer)"
           "entriesInBounds (m_runtimeProfile printingOptimizer)"
    using b by (simp_all add: printingOptimizer_def)
  have pal: "PAL_ENABLE_PRINTS_ASSERTS exampleMacros"
    by (simp add: exampleMacros_def)
  have off: "\<not> pipelineProfileDbgPrintProfileMatch (settings exampleOptimizer)"
    by (simp add: exampleOptimizer_def exampleSettings_def)
  have on: "pipelineProfileDbgPrintProfileMatch (settings printingOptimizer)"
    by (simp add: printingOptimizer_def)
  have m: "matchingEntries (m_tuningProfile exampleOptimizer) fragmentKey
             = [entryWith (vgprCreate 64)]"
    by (simp add: matchingEntries_def exampleOptimizer_def singleProfile_def entryWith_def
          ProfilePatternMatchesPipeline_def alwaysPattern_def)
  have m': "matchingEntries (m_tuningProfile printingOptimizer) fragmentKey \<noteq> []"
    using m by (simp add: printingOptimizer_def)
  have quiet: "OverrideComputePipelineCreateInfo exampleMacros exampleOptimizer fragmentKey
          (10 :: u32, 2 :: u32) = Inr (10, 2)"
    using b off compute_override_changes_nothing
            [of _ "(10 :: u32, 2 :: u32)" exampleMacros exampleOptimizer fragmentKey]
    by simp
  have loud: "OverrideComputePipelineCreateInfo exampleMacros printingOptimizer fragmentKey
          (10 :: u32, 2 :: u32) = Inl AssertFailed"
    using b' pal on m' compute_override_changes_nothing
            [of _ "(10 :: u32, 2 :: u32)" exampleMacros printingOptimizer fragmentKey]
    by simp
  from b pal off on m quiet loud show ?thesis by (intro conjI)
qed

section \<open>Properties of the tuning profile\<close>

lemma no_entries_shader:
  assumes "entryCount profile = 0"
  shows "ApplyProfileToShaderCreateInfo cfg profile pipelineKey shaderStage options = Inr options"
  using assms by (simp add: ApplyProfileToShaderCreateInfo_def)

lemma no_entries_compute:
  assumes "entryCount profile = 0"
  shows "ApplyProfileToComputePipelineCreateInfo cfg this profileAddress profile pipelineKey info
           = Inr info"
  using assms by (simp add: ApplyProfileToComputePipelineCreateInfo_def)

lemma no_entries_graphics:
  assumes "entryCount profile = 0"
  shows "ApplyProfileToGraphicsPipelineCreateInfo cfg this profileAddress profile pipelineKey
           shaderStages targets = Inr targets"
  using assms by (simp add: ApplyProfileToGraphicsPipelineCreateInfo_def)

text \<open>
  C8. With \<^verbatim>\<open>overrideShaderParams\<close> false, \<^verbatim>\<open>BuildTuningProfile\<close> leaves the tuning profile
  with an entry count of 0, whatever the other settings, the capacity and the memory block
  are; applying that profile on the shader-stage, compute and graphics paths changes nothing.
\<close>

theorem disabled_tuning_profile_is_empty:
  assumes "\<not> overrideShaderParams m_settings"
  shows "\<exists>profile.
           BuildTuningProfile InitialPipelineProfileEntries m_settings pMemory = Inr profile \<and>
           entryCount profile = 0 \<and>
           ApplyProfileToShaderCreateInfo cfg profile pipelineKey shaderStage options
             = Inr options \<and>
           ApplyProfileToComputePipelineCreateInfo cfg this profileAddress profile pipelineKey info
             = Inr info \<and>
           ApplyProfileToGraphicsPipelineCreateInfo cfg this profileAddress profile pipelineKey
             shaderStages targets = Inr targets"
proof -
  let ?profile = "\<lparr>entryCount = 0, entryCapacity = InitialPipelineProfileEntries,
                   pEntries = pMemory\<rparr>"
  have build: "BuildTuningProfile InitialPipelineProfileEntries m_settings pMemory = Inr ?profile"
    using assms by (simp add: BuildTuningProfile_def)
  have count: "entryCount ?profile = 0" by simp
  show ?thesis
    by (intro exI [of _ ?profile] conjI build count no_entries_shader [OF count]
          no_entries_compute [OF count] no_entries_graphics [OF count])
qed

theorem disabled_tuning_profile_is_empty_witness:
  "\<not> overrideShaderParams (exampleSettings\<lparr>overrideShaderParams := False\<rparr>) \<and>
   overrideNumVGPRsAvailable (exampleSettings\<lparr>overrideShaderParams := False\<rparr>) = 64 \<and>
   (\<exists>profile.
      BuildTuningProfile 32 (exampleSettings\<lparr>overrideShaderParams := False\<rparr>)
        (Some [entryWith unrollCreate]) = Inr profile \<and>
      entryCount profile = 0 \<and>
      ApplyProfileToShaderCreateInfo exampleMacros profile fragmentKey ShaderStageFragment
        defaultOptions = Inr defaultOptions \<and>
      ApplyProfileToComputePipelineCreateInfo exampleMacros printingOptimizer AtTuningProfile
        profile fragmentKey (10 :: u32, 2 :: u32) = Inr (10, 2) \<and>
      ApplyProfileToGraphicsPipelineCreateInfo exampleMacros printingOptimizer AtTuningProfile
        profile fragmentKey VK_SHADER_STAGE_FRAGMENT_BIT
        \<lparr>pPalCreateInfo = None, pGraphicsShaderInfos = None\<rparr>
        = Inr \<lparr>pPalCreateInfo = None, pGraphicsShaderInfos = None\<rparr>)"
proof -
  have h: "\<not> overrideShaderParams (exampleSettings\<lparr>overrideShaderParams := False\<rparr>)"
    by simp
  have v: "overrideNumVGPRsAvailable (exampleSettings\<lparr>overrideShaderParams := False\<rparr>) = 64"
    by (simp add: exampleSettings_def)
  show ?thesis
    using h v disabled_tuning_profile_is_empty [OF h]
    by (intro conjI)
qed

text \<open>
  The entry that \<^verbatim>\<open>BuildTuningProfile\<close> writes when the override is switched on, the block
  holds at least one entry and the stage index lies inside the per-stage arrays: its always
  flag and its per-stage patterns.
\<close>

lemma BuildTuningProfile_enabled:
  assumes "overrideShaderParams m_settings"
      and "pMemory = Some (m # ms)"
      and "stageOfIndex (overrideShaderStage m_settings) = Some shaderStage"
  shows "\<exists>entry others.
           BuildTuningProfile InitialPipelineProfileEntries m_settings pMemory
             = Inr \<lparr>entryCount = 1, entryCapacity = InitialPipelineProfileEntries,
                    pEntries = Some (entry # others)\<rparr> \<and>
           always (pattern_match (pattern entry))
             = (overrideShaderHashLower m_settings = 0 \<and> overrideShaderHashUpper m_settings = 0) \<and>
           pattern_shaders (pattern entry)
             = (\<lambda>stage. zeroShaderPattern)
                 (shaderStage := zeroShaderPattern
                    \<lparr>shader_match := (shader_match zeroShaderPattern)
                       \<lparr>match_codeHash := (overrideShaderHashLower m_settings \<noteq> 0 \<or>
                                            overrideShaderHashUpper m_settings \<noteq> 0)\<rparr>,
                     pattern_codeHash := \<lparr>lower = overrideShaderHashLower m_settings,
                                          upper = overrideShaderHashUpper m_settings\<rparr>\<rparr>)"
  using assms
  by (simp add: BuildTuningProfile_def Let_def tuningShaderPattern_def zeroEntry_def
        zeroPattern_def)

text \<open>
  C9. Let \<^verbatim>\<open>BuildTuningProfile\<close> run with the override switched on, a block of at least one
  entry and a stage index inside the per-stage arrays. It leaves one entry. If one of the two
  configured hash halves is not zero, the pattern of the entry enables the hash test at the
  configured stage with the configured hash as operand and does not set the always flag, so
  that the entry matches exactly the keys with that hash at that stage. If both halves are
  zero, the always flag is set and the entry matches every key.
\<close>

theorem tuning_profile_pattern:
  assumes "overrideShaderParams m_settings"
      and "pMemory = Some (m # ms)"
      and "stageOfIndex (overrideShaderStage m_settings) = Some shaderStage"
  shows "\<exists>entry others.
           BuildTuningProfile InitialPipelineProfileEntries m_settings pMemory
             = Inr \<lparr>entryCount = 1, entryCapacity = InitialPipelineProfileEntries,
                    pEntries = Some (entry # others)\<rparr> \<and>
           (overrideShaderHashLower m_settings \<noteq> 0 \<or> overrideShaderHashUpper m_settings \<noteq> 0
              \<longrightarrow> match_codeHash (shader_match (pattern_shaders (pattern entry) shaderStage)) \<and>
                  pattern_codeHash (pattern_shaders (pattern entry) shaderStage)
                    = \<lparr>lower = overrideShaderHashLower m_settings,
                       upper = overrideShaderHashUpper m_settings\<rparr> \<and>
                  \<not> always (pattern_match (pattern entry)) \<and>
                  (\<forall>pipelineKey.
                     ProfilePatternMatchesPipeline (pattern entry) pipelineKey \<longleftrightarrow>
                       lower (codeHash (shaders pipelineKey shaderStage))
                         = overrideShaderHashLower m_settings \<and>
                       upper (codeHash (shaders pipelineKey shaderStage))
                         = overrideShaderHashUpper m_settings)) \<and>
           (overrideShaderHashLower m_settings = 0 \<and> overrideShaderHashUpper m_settings = 0
              \<longrightarrow> always (pattern_match (pattern entry)) \<and>
                  (\<forall>pipelineKey. ProfilePatternMatchesPipeline (pattern entry) pipelineKey))"
proof -
  from BuildTuningProfile_enabled [OF assms, of InitialPipelineProfileEntries]
  obtain entry others where
    build: "BuildTuningProfile InitialPipelineProfileEntries m_settings pMemory
              = Inr \<lparr>entryCount = 1, entryCapacity = InitialPipelineProfileEntries,
                     pEntries = Some (entry # others)\<rparr>" and
    flag: "always (pattern_match (pattern entry))
             = (overrideShaderHashLower m_settings = 0 \<and> overrideShaderHashUpper m_settings = 0)" and
    stages: "pattern_shaders (pattern entry)
             = (\<lambda>stage. zeroShaderPattern)
                 (shaderStage := zeroShaderPattern
                    \<lparr>shader_match := (shader_match zeroShaderPattern)
                       \<lparr>match_codeHash := (overrideShaderHashLower m_settings \<noteq> 0 \<or>
                                            overrideShaderHashUpper m_settings \<noteq> 0)\<rparr>,
                     pattern_codeHash := \<lparr>lower = overrideShaderHashLower m_settings,
                                          upper = overrideShaderHashUpper m_settings\<rparr>\<rparr>)"
    by blast
  have passes: "stagePasses (pattern entry) pipelineKey stage \<longleftrightarrow>
                  (stage = shaderStage \<and>
                   (overrideShaderHashLower m_settings \<noteq> 0 \<or> overrideShaderHashUpper m_settings \<noteq> 0)
                   \<longrightarrow> lower (codeHash (shaders pipelineKey shaderStage))
                         = overrideShaderHashLower m_settings \<and>
                       upper (codeHash (shaders pipelineKey shaderStage))
                         = overrideShaderHashUpper m_settings)" for pipelineKey stage
    by (auto simp: stagePasses_def Let_def stages zeroShaderPattern_def)
  have nonzero: "match_codeHash (shader_match (pattern_shaders (pattern entry) shaderStage)) \<and>
        pattern_codeHash (pattern_shaders (pattern entry) shaderStage)
          = \<lparr>lower = overrideShaderHashLower m_settings,
             upper = overrideShaderHashUpper m_settings\<rparr> \<and>
        \<not> always (pattern_match (pattern entry)) \<and>
        (\<forall>pipelineKey.
           ProfilePatternMatchesPipeline (pattern entry) pipelineKey \<longleftrightarrow>
             lower (codeHash (shaders pipelineKey shaderStage))
               = overrideShaderHashLower m_settings \<and>
             upper (codeHash (shaders pipelineKey shaderStage))
               = overrideShaderHashUpper m_settings)"
    if "overrideShaderHashLower m_settings \<noteq> 0 \<or> overrideShaderHashUpper m_settings \<noteq> 0"
  proof (intro conjI allI)
    show "match_codeHash (shader_match (pattern_shaders (pattern entry) shaderStage))"
      using that by (simp add: stages)
    show "pattern_codeHash (pattern_shaders (pattern entry) shaderStage)
            = \<lparr>lower = overrideShaderHashLower m_settings,
               upper = overrideShaderHashUpper m_settings\<rparr>"
      by (simp add: stages)
    show "\<not> always (pattern_match (pattern entry))"
      using that flag by blast
    show "ProfilePatternMatchesPipeline (pattern entry) pipelineKey \<longleftrightarrow>
             lower (codeHash (shaders pipelineKey shaderStage))
               = overrideShaderHashLower m_settings \<and>
             upper (codeHash (shaders pipelineKey shaderStage))
               = overrideShaderHashUpper m_settings" for pipelineKey
      using that flag by (auto simp: matches_iff passes)
  qed
  have zero: "always (pattern_match (pattern entry)) \<and>
              (\<forall>pipelineKey. ProfilePatternMatchesPipeline (pattern entry) pipelineKey)"
    if "overrideShaderHashLower m_settings = 0 \<and> overrideShaderHashUpper m_settings = 0"
    using that flag by (simp add: matches_iff)
  show ?thesis
    using build nonzero zero by blast
qed

theorem tuning_profile_pattern_witness:
  "overrideShaderParams exampleSettings \<and>
   stageOfIndex (overrideShaderStage exampleSettings) = Some ShaderStageFragment \<and>
   overrideShaderHashLower exampleSettings \<noteq> 0 \<and>
   (\<exists>entry others.
      BuildTuningProfile 32 exampleSettings (Some [entryWith unrollCreate, zeroEntry])
        = Inr \<lparr>entryCount = 1, entryCapacity = 32, pEntries = Some (entry # others)\<rparr> \<and>
      match_codeHash (shader_match (pattern_shaders (pattern entry) ShaderStageFragment)) \<and>
      \<not> always (pattern_match (pattern entry)) \<and>
      ProfilePatternMatchesPipeline (pattern entry) fragmentKey \<and>
      \<not> ProfilePatternMatchesPipeline (pattern entry) zeroKey)"
proof -
  have h1: "overrideShaderParams exampleSettings"
    by (simp add: exampleSettings_def)
  have h2: "Some [entryWith unrollCreate, zeroEntry] = Some (entryWith unrollCreate # [zeroEntry])"
    by simp
  have h3: "stageOfIndex (overrideShaderStage exampleSettings) = Some ShaderStageFragment"
    by (simp add: exampleSettings_def stageOfIndex_def ShaderStageCount_def stageRange_def)
  have h4: "overrideShaderHashLower exampleSettings \<noteq> 0"
    by (simp add: exampleSettings_def)
  have k1: "lower (codeHash (shaders fragmentKey ShaderStageFragment))
              = overrideShaderHashLower exampleSettings \<and>
            upper (codeHash (shaders fragmentKey ShaderStageFragment))
              = overrideShaderHashUpper exampleSettings"
    by (simp add: fragmentKey_def exampleSettings_def)
  have k2: "lower (codeHash (shaders zeroKey ShaderStageFragment))
              \<noteq> overrideShaderHashLower exampleSettings"
    by (simp add: zeroKey_def zeroHash_def exampleSettings_def)
  from tuning_profile_pattern [OF h1 h2 h3, of 32]
  obtain entry others where
    build: "BuildTuningProfile 32 exampleSettings (Some [entryWith unrollCreate, zeroEntry])
              = Inr \<lparr>entryCount = 1, entryCapacity = 32, pEntries = Some (entry # others)\<rparr>" and
    nz: "overrideShaderHashLower exampleSettings \<noteq> 0 \<or> overrideShaderHashUpper exampleSettings \<noteq> 0
           \<longrightarrow> match_codeHash (shader_match (pattern_shaders (pattern entry) ShaderStageFragment)) \<and>
               pattern_codeHash (pattern_shaders (pattern entry) ShaderStageFragment)
                 = \<lparr>lower = overrideShaderHashLower exampleSettings,
                    upper = overrideShaderHashUpper exampleSettings\<rparr> \<and>
               \<not> always (pattern_match (pattern entry)) \<and>
               (\<forall>pipelineKey.
                  ProfilePatternMatchesPipeline (pattern entry) pipelineKey \<longleftrightarrow>
                    lower (codeHash (shaders pipelineKey ShaderStageFragment))
                      = overrideShaderHashLower exampleSettings \<and>
                    upper (codeHash (shaders pipelineKey ShaderStageFragment))
                      = overrideShaderHashUpper exampleSettings)"
    by blast
  from nz h4 k1 k2 have
    "match_codeHash (shader_match (pattern_shaders (pattern entry) ShaderStageFragment)) \<and>
     \<not> always (pattern_match (pattern entry)) \<and>
     ProfilePatternMatchesPipeline (pattern entry) fragmentKey \<and>
     \<not> ProfilePatternMatchesPipeline (pattern entry) zeroKey"
    by blast
  with build have "\<exists>entry others.
      BuildTuningProfile 32 exampleSettings (Some [entryWith unrollCreate, zeroEntry])
        = Inr \<lparr>entryCount = 1, entryCapacity = 32, pEntries = Some (entry # others)\<rparr> \<and>
      match_codeHash (shader_match (pattern_shaders (pattern entry) ShaderStageFragment)) \<and>
      \<not> always (pattern_match (pattern entry)) \<and>
      ProfilePatternMatchesPipeline (pattern entry) fragmentKey \<and>
      \<not> ProfilePatternMatchesPipeline (pattern entry) zeroKey"
    by blast
  with h1 h3 h4 show ?thesis by (intro conjI)
qed

end
